theory Spec2Isabelle
  imports
    Main
    "HOL-Library.Sublist"
    "HOL-Library.Char_ord"
    "HOL-Library.List_Lexorder"
begin

section \<open>Go errors\<close>

text \<open>
  Go errors are values. The sentinels the program tests for are \<open>exec.ErrNotFound\<close>,
  \<open>os.ErrNotExist\<close> and (through \<open>bufio.Scanner\<close>) \<open>bufio.ErrTooLong\<close>.
  \<open>New s\<close> is \<open>errors.New(s)\<close> or a \<open>fmt.Errorf\<close> without \<open>%w\<close>;
  \<open>Wrap p e\<close> is \<open>fmt.Errorf(p + "%w", e)\<close>: its message is \<open>p\<close> followed by the
  message of \<open>e\<close>, and \<open>errors.Is\<close> looks through it.
  \<open>Panic\<close> is not an error value that a caller receives: it stands for a run-time
  panic (a method called on a nil \<open>Executor\<close>), after which nothing returns.
\<close>

datatype error =
    ErrNotFound
  | ErrNotExist
  | ErrTooLong
  | New string
  | Wrap string error
  | Panic string

fun Error :: "error \<Rightarrow> string" where
  "Error ErrNotFound = ''executable file not found in $PATH''"
| "Error ErrNotExist = ''file does not exist''"
| "Error ErrTooLong = ''bufio.Scanner: token too long''"
| "Error (New s) = s"
| "Error (Wrap p e) = p @ Error e"
| "Error (Panic s) = ''panic: '' @ s"

fun errors_Is :: "error \<Rightarrow> error \<Rightarrow> bool" where
  "errors_Is (Wrap p e) target = (Wrap p e = target \<or> errors_Is e target)"
| "errors_Is e target = (e = target)"

section \<open>Package mode: the provider interface and the registry\<close>

text \<open>
  \<open>mode.Executor\<close>: the read-only view of the machine that providers consult.
  \<open>Stat\<close> returns only its error (\<open>None\<close> is success); the \<open>os.FileInfo\<close> is
  discarded at every call site. A command is its argument vector.
\<close>

record mode_Executor =
  LookPath :: "string \<Rightarrow> error + string"
  Output :: "string list \<Rightarrow> error + string"
  Stat :: "string \<Rightarrow> error option"
  ReadDir :: "string \<Rightarrow> error + string list"

record DetectRequest =
  dExec :: "mode_Executor option"

record PlanRequest =
  pExec :: "mode_Executor option"
  enabledModes :: "string list"

record PlanResult =
  AddEnvs :: "string \<rightharpoonup> string"
  MountPaths :: "string list"
  RemovePaths :: "string list"

definition PlanResult_zero :: PlanResult where
  "PlanResult_zero = \<lparr>AddEnvs = Map.empty, MountPaths = [], RemovePaths = []\<rparr>"

text \<open>The interface \<open>ModeProvider\<close>: any value with these three methods.\<close>

record ModeProvider =
  Name :: string
  Detect :: "DetectRequest \<Rightarrow> error + bool"
  Plan :: "PlanRequest \<Rightarrow> error + PlanResult"

type_synonym Modes = "ModeProvider list"

definition Modes_Names :: "Modes \<Rightarrow> string list" where
  "Modes_Names modes = sort (map Name modes)"

text \<open>
  \<open>Modes.Filter\<close>. The map \<open>available\<close> is filled in registry order, so of two
  providers with one name the later one stays.
\<close>

definition available :: "Modes \<Rightarrow> (string \<rightharpoonup> ModeProvider)" where
  "available modes = map_of (rev (map (\<lambda>m. (Name m, m)) modes))"

fun Filter_loop :: "(string \<rightharpoonup> ModeProvider) \<Rightarrow> string list \<Rightarrow> Modes \<Rightarrow> error + Modes" where
  "Filter_loop av [] filtered = Inr filtered"
| "Filter_loop av (inc # rest) filtered =
     (case av inc of
        None \<Rightarrow> Inl (New (''unknown mode: '' @ inc))
      | Some m \<Rightarrow> Filter_loop av rest (filtered @ [m]))"

definition Modes_Filter :: "Modes \<Rightarrow> string list \<Rightarrow> error + Modes" where
  "Modes_Filter modes include =
     (if length modes = 0 then Inr []
      else Filter_loop (available modes) include [])"

text \<open>
  \<open>Modes.Detect\<close> and \<open>Modes.Plan\<close> start one task per provider in an
  \<open>errgroup\<close> and wait. What the caller sees depends on the order in which the tasks
  finish, and on nothing else: \<open>Wait\<close> returns the first error that a task returned,
  and the tasks that finished before it appended to \<open>filtered\<close> (stored into
  \<open>plans\<close>) under the mutex. The order of completion is the argument \<open>finish\<close>, a
  list of indices into \<open>modes\<close>; an index out of range names no task.
\<close>

definition in_order :: "nat list \<Rightarrow> 'a list \<Rightarrow> 'a list" where
  "in_order finish xs = map (\<lambda>i. xs ! i) (filter (\<lambda>i. i < length xs) finish)"

definition all_complete :: "nat list \<Rightarrow> 'a list \<Rightarrow> bool" where
  "all_complete finish xs = (\<forall>i < length xs. i \<in> set finish)"

fun Detect_tasks :: "DetectRequest \<Rightarrow> Modes \<Rightarrow> Modes \<Rightarrow> error + Modes" where
  "Detect_tasks req [] filtered = Inr filtered"
| "Detect_tasks req (m # rest) filtered =
     (case Detect m req of
        Inl err \<Rightarrow> Inl (Wrap (''detecting '' @ Name m @ '': '') err)
      | Inr detected \<Rightarrow>
          Detect_tasks req rest (if detected then filtered @ [m] else filtered))"

definition Detect_defaults :: "mode_Executor \<Rightarrow> DetectRequest \<Rightarrow> DetectRequest" where
  "Detect_defaults DefaultExecutor req =
     (if dExec req = None then req\<lparr>dExec := Some DefaultExecutor\<rparr> else req)"

definition Modes_Detect ::
  "mode_Executor \<Rightarrow> nat list \<Rightarrow> Modes \<Rightarrow> DetectRequest \<Rightarrow> error + Modes" where
  "Modes_Detect DefaultExecutor finish modes req =
     Detect_tasks (Detect_defaults DefaultExecutor req) (in_order finish modes) []"

text \<open>
  The result of \<open>Modes.Plan\<close> is a Go map from provider name to plan. It is kept
  here as an association list with distinct keys, in the order of first insertion.
\<close>

fun store :: "'k \<Rightarrow> 'v \<Rightarrow> ('k \<times> 'v) list \<Rightarrow> ('k \<times> 'v) list" where
  "store k v [] = [(k, v)]"
| "store k v ((k', v') # kvs) = (if k = k' then (k, v) # kvs else (k', v') # store k v kvs)"

fun Plan_tasks ::
  "PlanRequest \<Rightarrow> Modes \<Rightarrow> (string \<times> PlanResult) list \<Rightarrow> error + (string \<times> PlanResult) list" where
  "Plan_tasks req [] plans = Inr plans"
| "Plan_tasks req (m # rest) plans =
     (case Plan m req of
        Inl err \<Rightarrow> Inl (Wrap (''planning '' @ Name m @ '': '') err)
      | Inr result \<Rightarrow> Plan_tasks req rest (store (Name m) result plans))"

definition Plan_defaults :: "mode_Executor \<Rightarrow> Modes \<Rightarrow> PlanRequest \<Rightarrow> PlanRequest" where
  "Plan_defaults DefaultExecutor modes req =
     (let req = req\<lparr>enabledModes := Modes_Names modes\<rparr>
      in if pExec req = None then req\<lparr>pExec := Some DefaultExecutor\<rparr> else req)"

definition Modes_Plan ::
  "mode_Executor \<Rightarrow> nat list \<Rightarrow> Modes \<Rightarrow> PlanRequest \<Rightarrow> error + (string \<times> PlanResult) list" where
  "Modes_Plan DefaultExecutor finish modes req =
     Plan_tasks (Plan_defaults DefaultExecutor modes req) (in_order finish modes) []"

text \<open>
  Test doubles, as \<open>ModeProviderMock\<close> and \<open>ExecutorMock\<close> in the tests: a provider
  that answers with fixed values, and a machine on which nothing is installed.
\<close>

definition ModeProviderMock :: "string \<Rightarrow> error + bool \<Rightarrow> error + PlanResult \<Rightarrow> ModeProvider" where
  "ModeProviderMock n d p = \<lparr>Name = n, Detect = (\<lambda>_. d), Plan = (\<lambda>_. p)\<rparr>"

definition bare_machine :: mode_Executor where
  "bare_machine =
     \<lparr>LookPath = (\<lambda>_. Inl ErrNotFound), Output = (\<lambda>_. Inl ErrNotFound),
      Stat = (\<lambda>_. Some ErrNotExist), ReadDir = (\<lambda>_. Inl ErrNotExist)\<rparr>"

section \<open>The providers: detection\<close>

text \<open>
  Every \<open>Detect\<close> begins by locating the provider's binary: not finding it is the
  answer \<open>(false, nil)\<close>, any other failure of the lookup is an error.
\<close>

definition with_Exec :: "mode_Executor option \<Rightarrow> (mode_Executor \<Rightarrow> error + 'a) \<Rightarrow> error + 'a" where
  "with_Exec e k =
     (case e of None \<Rightarrow> Inl (Panic ''nil pointer dereference'') | Some ex \<Rightarrow> k ex)"

definition lookpath_then :: "mode_Executor \<Rightarrow> string \<Rightarrow> (error + bool) \<Rightarrow> error + bool" where
  "lookpath_then ex file k =
     (case LookPath ex file of
        Inl err \<Rightarrow>
          if errors_Is err ErrNotFound then Inr False
          else Inl (Wrap (''lookpath '' @ file @ '': '') err)
      | Inr _ \<Rightarrow> k)"

text \<open>
  The two shapes of the marker check. With one marker file: a failed stat is
  \<open>(false, nil)\<close> when the file does not exist and an error otherwise. With several:
  the first marker that stats successfully answers \<open>(true, nil)\<close>, a stat error other
  than not-exist ends the search with an error, and \<open>(false, nil)\<close> is left when all
  are missing.
\<close>

definition stat_marker :: "mode_Executor \<Rightarrow> string \<Rightarrow> error + bool" where
  "stat_marker ex file =
     (case Stat ex file of
        Some err \<Rightarrow>
          if errors_Is err ErrNotExist then Inr False
          else Inl (Wrap (''stat '' @ file @ '': '') err)
      | None \<Rightarrow> Inr True)"

fun stat_first :: "mode_Executor \<Rightarrow> string list \<Rightarrow> error + bool" where
  "stat_first ex [] = Inr False"
| "stat_first ex (file # rest) =
     (case Stat ex file of
        None \<Rightarrow> Inr True
      | Some err \<Rightarrow>
          if \<not> errors_Is err ErrNotExist then Inl (Wrap (''stat '' @ file @ '': '') err)
          else stat_first ex rest)"

definition miseConfigFiles :: "string list" where
  "miseConfigFiles =
     [''mise.toml'', ''.mise.toml'', ''.tool-versions'', ''mise/config.toml'',
      ''.mise/config.toml'', ''.config/mise.toml'', ''.config/mise/config.toml'']"

definition nixProjectFiles :: "string list" where
  "nixProjectFiles = [''flake.nix'', ''shell.nix'', ''default.nix'']"

definition xcodeProjSuffix :: string where
  "xcodeProjSuffix = ''.xcodeproj''"

text \<open>
  The closed set of providers. The last two are the earlier \<open>GoProvider\<close> and
  \<open>GolangCILintProvider\<close> that stand in mode.go, which detect on the binary alone.
\<close>

datatype Provider =
    AptProvider | BrewProvider | BunProvider | CocoapodsProvider | ComposerProvider
  | DenoProvider | GoProvider | GolangCILintProvider | GradleProvider | MavenProvider
  | MiseProvider | NixProvider | PlaywrightProvider | PnpmProvider | PoetryProvider
  | PythonProvider | RubyProvider | RustProvider | SwiftPMProvider | UVProvider
  | XcodeProvider | YarnProvider
  | GoProvider_mode_go | GolangCILintProvider_mode_go

fun Provider_Name :: "Provider \<Rightarrow> string" where
  "Provider_Name AptProvider = ''apt''"
| "Provider_Name BrewProvider = ''brew''"
| "Provider_Name BunProvider = ''bun''"
| "Provider_Name CocoapodsProvider = ''cocoapods''"
| "Provider_Name ComposerProvider = ''composer''"
| "Provider_Name DenoProvider = ''deno''"
| "Provider_Name GoProvider = ''go''"
| "Provider_Name GolangCILintProvider = ''golangci-lint''"
| "Provider_Name GradleProvider = ''gradle''"
| "Provider_Name MavenProvider = ''maven''"
| "Provider_Name MiseProvider = ''mise''"
| "Provider_Name NixProvider = ''nix''"
| "Provider_Name PlaywrightProvider = ''playwright''"
| "Provider_Name PnpmProvider = ''pnpm''"
| "Provider_Name PoetryProvider = ''poetry''"
| "Provider_Name PythonProvider = ''python''"
| "Provider_Name RubyProvider = ''ruby''"
| "Provider_Name RustProvider = ''rust''"
| "Provider_Name SwiftPMProvider = ''swiftpm''"
| "Provider_Name UVProvider = ''uv''"
| "Provider_Name XcodeProvider = ''xcode''"
| "Provider_Name YarnProvider = ''yarn''"
| "Provider_Name GoProvider_mode_go = ''go''"
| "Provider_Name GolangCILintProvider_mode_go = ''golangci-lint''"

fun Provider_Detect :: "Provider \<Rightarrow> DetectRequest \<Rightarrow> error + bool" where
  "Provider_Detect AptProvider req =
     with_Exec (dExec req) (\<lambda>ex. lookpath_then ex ''apt-config'' (Inr True))"
| "Provider_Detect BrewProvider req =
     with_Exec (dExec req) (\<lambda>ex. lookpath_then ex ''brew'' (stat_marker ex ''Brewfile''))"
| "Provider_Detect BunProvider req =
     with_Exec (dExec req) (\<lambda>ex. lookpath_then ex ''bun'' (stat_marker ex ''bun.lock''))"
| "Provider_Detect CocoapodsProvider req =
     with_Exec (dExec req) (\<lambda>ex. lookpath_then ex ''pod'' (stat_marker ex ''Podfile''))"
| "Provider_Detect ComposerProvider req =
     with_Exec (dExec req) (\<lambda>ex. lookpath_then ex ''composer'' (stat_marker ex ''composer.json''))"
| "Provider_Detect DenoProvider req =
     with_Exec (dExec req) (\<lambda>ex. lookpath_then ex ''deno'' (stat_marker ex ''deno.lock''))"
| "Provider_Detect GoProvider req =
     with_Exec (dExec req) (\<lambda>ex. lookpath_then ex ''go'' (stat_first ex [''go.mod'', ''go.work'']))"
| "Provider_Detect GolangCILintProvider req =
     with_Exec (dExec req) (\<lambda>ex.
       lookpath_then ex ''golangci-lint'' (stat_first ex [''.golangci.yml'', ''.golangci.yaml'']))"
| "Provider_Detect GradleProvider req =
     with_Exec (dExec req) (\<lambda>ex.
       lookpath_then ex ''gradle'' (stat_first ex [''gradlew'', ''build.gradle'']))"
| "Provider_Detect MavenProvider req =
     with_Exec (dExec req) (\<lambda>ex. lookpath_then ex ''mvn'' (stat_marker ex ''pom.xml''))"
| "Provider_Detect MiseProvider req =
     with_Exec (dExec req) (\<lambda>ex. lookpath_then ex ''mise'' (stat_first ex miseConfigFiles))"
| "Provider_Detect NixProvider req =
     with_Exec (dExec req) (\<lambda>ex. lookpath_then ex ''nix'' (stat_first ex nixProjectFiles))"
| "Provider_Detect PlaywrightProvider req =
     with_Exec (dExec req) (\<lambda>ex. lookpath_then ex ''playwright'' (Inr True))"
| "Provider_Detect PnpmProvider req =
     with_Exec (dExec req) (\<lambda>ex. lookpath_then ex ''pnpm'' (stat_marker ex ''pnpm-lock.yaml''))"
| "Provider_Detect PoetryProvider req =
     with_Exec (dExec req) (\<lambda>ex. lookpath_then ex ''poetry'' (stat_marker ex ''poetry.lock''))"
| "Provider_Detect PythonProvider req =
     with_Exec (dExec req) (\<lambda>ex. lookpath_then ex ''pip'' (stat_marker ex ''requirements.txt''))"
| "Provider_Detect RubyProvider req =
     with_Exec (dExec req) (\<lambda>ex. lookpath_then ex ''bundle'' (stat_marker ex ''Gemfile''))"
| "Provider_Detect RustProvider req =
     with_Exec (dExec req) (\<lambda>ex. lookpath_then ex ''cargo'' (stat_marker ex ''Cargo.toml''))"
| "Provider_Detect SwiftPMProvider req =
     with_Exec (dExec req) (\<lambda>ex. lookpath_then ex ''swift'' (stat_marker ex ''Package.swift''))"
| "Provider_Detect UVProvider req =
     with_Exec (dExec req) (\<lambda>ex. lookpath_then ex ''uv'' (stat_marker ex ''uv.lock''))"
| "Provider_Detect XcodeProvider req =
     with_Exec (dExec req) (\<lambda>ex.
       lookpath_then ex ''xcodebuild''
         (case ReadDir ex ''.'' of
            Inl err \<Rightarrow> Inl (Wrap ''readdir: '' err)
          | Inr entries \<Rightarrow> Inr (\<exists>entry \<in> set entries. suffix xcodeProjSuffix entry)))"
| "Provider_Detect YarnProvider req =
     with_Exec (dExec req) (\<lambda>ex. lookpath_then ex ''yarn'' (stat_marker ex ''yarn.lock''))"
| "Provider_Detect GoProvider_mode_go req =
     with_Exec (dExec req) (\<lambda>ex. lookpath_then ex ''go'' (Inr True))"
| "Provider_Detect GolangCILintProvider_mode_go req =
     with_Exec (dExec req) (\<lambda>ex. lookpath_then ex ''golangci-lint'' (Inr True))"

text \<open>
  For stating properties of detection: the name each provider passes to
  \<open>LookPath\<close>, and the marker files it stats, in the order it stats them.
\<close>

fun primary_binary :: "Provider \<Rightarrow> string" where
  "primary_binary AptProvider = ''apt-config''"
| "primary_binary BrewProvider = ''brew''"
| "primary_binary BunProvider = ''bun''"
| "primary_binary CocoapodsProvider = ''pod''"
| "primary_binary ComposerProvider = ''composer''"
| "primary_binary DenoProvider = ''deno''"
| "primary_binary GoProvider = ''go''"
| "primary_binary GolangCILintProvider = ''golangci-lint''"
| "primary_binary GradleProvider = ''gradle''"
| "primary_binary MavenProvider = ''mvn''"
| "primary_binary MiseProvider = ''mise''"
| "primary_binary NixProvider = ''nix''"
| "primary_binary PlaywrightProvider = ''playwright''"
| "primary_binary PnpmProvider = ''pnpm''"
| "primary_binary PoetryProvider = ''poetry''"
| "primary_binary PythonProvider = ''pip''"
| "primary_binary RubyProvider = ''bundle''"
| "primary_binary RustProvider = ''cargo''"
| "primary_binary SwiftPMProvider = ''swift''"
| "primary_binary UVProvider = ''uv''"
| "primary_binary XcodeProvider = ''xcodebuild''"
| "primary_binary YarnProvider = ''yarn''"
| "primary_binary GoProvider_mode_go = ''go''"
| "primary_binary GolangCILintProvider_mode_go = ''golangci-lint''"

fun marker_files :: "Provider \<Rightarrow> string list" where
  "marker_files BrewProvider = [''Brewfile'']"
| "marker_files BunProvider = [''bun.lock'']"
| "marker_files CocoapodsProvider = [''Podfile'']"
| "marker_files ComposerProvider = [''composer.json'']"
| "marker_files DenoProvider = [''deno.lock'']"
| "marker_files GoProvider = [''go.mod'', ''go.work'']"
| "marker_files GolangCILintProvider = [''.golangci.yml'', ''.golangci.yaml'']"
| "marker_files GradleProvider = [''gradlew'', ''build.gradle'']"
| "marker_files MavenProvider = [''pom.xml'']"
| "marker_files MiseProvider = miseConfigFiles"
| "marker_files NixProvider = nixProjectFiles"
| "marker_files PnpmProvider = [''pnpm-lock.yaml'']"
| "marker_files PoetryProvider = [''poetry.lock'']"
| "marker_files PythonProvider = [''requirements.txt'']"
| "marker_files RubyProvider = [''Gemfile'']"
| "marker_files RustProvider = [''Cargo.toml'']"
| "marker_files SwiftPMProvider = [''Package.swift'']"
| "marker_files UVProvider = [''uv.lock'']"
| "marker_files YarnProvider = [''yarn.lock'']"
| "marker_files _ = []"

definition missing :: "mode_Executor \<Rightarrow> string \<Rightarrow> bool" where
  "missing ex file = (\<exists>err. Stat ex file = Some err \<and> errors_Is err ErrNotExist)"

definition apt_go :: Modes where
  "apt_go = [ModeProviderMock ''apt'' (Inr True) (Inr PlanResult_zero),
             ModeProviderMock ''go'' (Inl (New ''detection failed'')) (Inl (New ''planning failed''))]"

text \<open>A machine with Homebrew installed and a Brewfile in the working directory.\<close>

definition brew_machine :: mode_Executor where
  "brew_machine =
     \<lparr>LookPath = (\<lambda>f. if f = ''brew'' then Inr ''/opt/homebrew/bin/brew'' else Inl ErrNotFound),
      Output = (\<lambda>_. Inl ErrNotFound),
      Stat = (\<lambda>f. if f = ''Brewfile'' then None else Some ErrNotExist),
      ReadDir = (\<lambda>_. Inl ErrNotExist)\<rparr>"

section \<open>Strings\<close>

text \<open>
  A Go string is a sequence of bytes, as \<open>string\<close> is here. The functions of package
  \<open>strings\<close> that the providers use, for the separator \<open>"\n"\<close>:
  \<open>Split\<close> returns one more piece than there are separators, \<open>Join\<close> puts the
  separator between the pieces.
\<close>

definition nl :: char where
  "nl = CHR 0x0A"

fun Split :: "char \<Rightarrow> string \<Rightarrow> string list" where
  "Split sep [] = [[]]"
| "Split sep (c # cs) =
     (if c = sep then [] # Split sep cs
      else (case Split sep cs of [] \<Rightarrow> [[c]] | piece # pieces \<Rightarrow> (c # piece) # pieces))"

fun Join :: "string list \<Rightarrow> string \<Rightarrow> string" where
  "Join [] sep = []"
| "Join [piece] sep = piece"
| "Join (piece # pieces) sep = piece @ sep @ Join pieces sep"

definition HasPrefix :: "string \<Rightarrow> string \<Rightarrow> bool" where
  "HasPrefix s p = prefix p s"

text \<open>
  \<open>strings.TrimSpace\<close> removes the leading and trailing runes that
  \<open>unicode.IsSpace\<close> accepts. \<open>space_runes\<close> lists their UTF-8 encodings: tab to
  carriage return and space, U+0085, U+00A0, U+1680, U+2000 to U+200A, U+2028, U+2029,
  U+202F, U+205F and U+3000. No encoding is a prefix or a suffix of another, so a string
  begins (ends) with at most one of them, and that is the rune Go decodes there.
\<close>

definition space_runes :: "string list" where
  "space_runes =
     [[CHR 0x09], [CHR 0x0A], [CHR 0x0B], [CHR 0x0C], [CHR 0x0D], [CHR 0x20],
      [CHR 0xC2, CHR 0x85], [CHR 0xC2, CHR 0xA0],
      [CHR 0xE1, CHR 0x9A, CHR 0x80],
      [CHR 0xE2, CHR 0x80, CHR 0x80], [CHR 0xE2, CHR 0x80, CHR 0x81],
      [CHR 0xE2, CHR 0x80, CHR 0x82], [CHR 0xE2, CHR 0x80, CHR 0x83],
      [CHR 0xE2, CHR 0x80, CHR 0x84], [CHR 0xE2, CHR 0x80, CHR 0x85],
      [CHR 0xE2, CHR 0x80, CHR 0x86], [CHR 0xE2, CHR 0x80, CHR 0x87],
      [CHR 0xE2, CHR 0x80, CHR 0x88], [CHR 0xE2, CHR 0x80, CHR 0x89],
      [CHR 0xE2, CHR 0x80, CHR 0x8A],
      [CHR 0xE2, CHR 0x80, CHR 0xA8], [CHR 0xE2, CHR 0x80, CHR 0xA9],
      [CHR 0xE2, CHR 0x80, CHR 0xAF],
      [CHR 0xE2, CHR 0x81, CHR 0x9F],
      [CHR 0xE3, CHR 0x80, CHR 0x80]]"

definition leading_space :: "string \<Rightarrow> string option" where
  "leading_space s = find (\<lambda>w. prefix w s) space_runes"

definition trailing_space :: "string \<Rightarrow> string option" where
  "trailing_space s = find (\<lambda>w. suffix w s) space_runes"

lemma space_runes_nonempty: "w \<in> set space_runes \<Longrightarrow> w \<noteq> []"
  by (auto simp: space_runes_def)

lemma leading_space_shorter:
  assumes "leading_space s = Some w"
  shows "length s - length w < length s"
proof -
  from assms have "w \<in> set space_runes" and "prefix w s"
    by (auto simp: leading_space_def find_Some_iff)
  then have "w \<noteq> []" and "length w \<le> length s"
    by (auto simp: space_runes_nonempty prefix_length_le)
  then show ?thesis by (cases w) auto
qed

lemma trailing_space_shorter:
  assumes "trailing_space s = Some w"
  shows "length s - length w < length s"
proof -
  from assms have "w \<in> set space_runes" and "suffix w s"
    by (auto simp: trailing_space_def find_Some_iff)
  then have "w \<noteq> []" and "length w \<le> length s"
    by (auto simp: space_runes_nonempty suffix_length_le)
  then show ?thesis by (cases w) auto
qed

function TrimLeft :: "string \<Rightarrow> string" where
  "TrimLeft s =
     (case leading_space s of None \<Rightarrow> s | Some w \<Rightarrow> TrimLeft (drop (length w) s))"
  by pat_completeness auto
termination
  by (relation "measure length") (auto simp: leading_space_shorter)

function TrimRight :: "string \<Rightarrow> string" where
  "TrimRight s =
     (case trailing_space s of None \<Rightarrow> s | Some w \<Rightarrow> TrimRight (take (length s - length w) s))"
  by pat_completeness auto
termination
  by (relation "measure length") (auto simp: trailing_space_shorter)

declare TrimLeft.simps [simp del] TrimRight.simps [simp del]

definition TrimSpace :: "string \<Rightarrow> string" where
  "TrimSpace s = TrimRight (TrimLeft s)"

text \<open>
  \<open>strings.ToLower\<close> has a path for strings of ASCII bytes, which is all of it that
  is written out here; the other path is \<open>strings.Map(unicode.ToLower, s)\<close>, whose
  case tables are not part of this repository and are the argument \<open>unicode_lower\<close>.
\<close>

definition ascii_lower :: "char \<Rightarrow> char" where
  "ascii_lower c =
     (if CHR ''A'' \<le> c \<and> c \<le> CHR ''Z'' then char_of (of_char c + (32::nat)) else c)"

definition ToLower :: "(string \<Rightarrow> string) \<Rightarrow> string \<Rightarrow> string" where
  "ToLower unicode_lower s =
     (if \<forall>c \<in> set s. c < CHR 0x80 then map ascii_lower s else unicode_lower s)"

section \<open>Semantic versions\<close>

text \<open>
  \<open>semver.Compare\<close> of golang.org/x/mod/semver: a version that does not parse is
  less than one that does; the numbers are compared as decimal strings, by length and
  then bytewise; a version with a pre-release is less than the same version without.
\<close>

definition isDigit :: "char \<Rightarrow> bool" where
  "isDigit c = (CHR ''0'' \<le> c \<and> c \<le> CHR ''9'')"

definition isIdentChar :: "char \<Rightarrow> bool" where
  "isIdentChar c =
     (CHR ''A'' \<le> c \<and> c \<le> CHR ''Z'' \<or> CHR ''a'' \<le> c \<and> c \<le> CHR ''z'' \<or>
      CHR ''0'' \<le> c \<and> c \<le> CHR ''9'' \<or> c = CHR ''-'')"

definition isNum :: "string \<Rightarrow> bool" where
  "isNum v = (\<forall>c \<in> set v. isDigit c)"

definition isBadNum :: "string \<Rightarrow> bool" where
  "isBadNum v = (isNum v \<and> length v > 1 \<and> hd v = CHR ''0'')"

definition parseInt :: "string \<Rightarrow> (string \<times> string) option" where
  "parseInt v =
     (case v of
        [] \<Rightarrow> None
      | c # cs \<Rightarrow>
          if \<not> isDigit c then None
          else if c = CHR ''0'' \<and> takeWhile isDigit cs \<noteq> [] then None
          else Some (c # takeWhile isDigit cs, dropWhile isDigit cs))"

definition parsePrerelease :: "string \<Rightarrow> (string \<times> string) option" where
  "parsePrerelease v =
     (case v of
        [] \<Rightarrow> None
      | c # cs \<Rightarrow>
          if c \<noteq> CHR ''-'' then None
          else let body = takeWhile (\<lambda>x. x \<noteq> CHR ''+'') cs;
                   rest = dropWhile (\<lambda>x. x \<noteq> CHR ''+'') cs
               in if (\<forall>x \<in> set body. isIdentChar x \<or> x = CHR ''.'') \<and>
                     (\<forall>ident \<in> set (Split (CHR ''.'') body). ident \<noteq> [] \<and> \<not> isBadNum ident)
                  then Some (c # body, rest) else None)"

definition parseBuild :: "string \<Rightarrow> (string \<times> string) option" where
  "parseBuild v =
     (case v of
        [] \<Rightarrow> None
      | c # cs \<Rightarrow>
          if c \<noteq> CHR ''+'' then None
          else if (\<forall>x \<in> set cs. isIdentChar x \<or> x = CHR ''.'') \<and>
                  (\<forall>ident \<in> set (Split (CHR ''.'') cs). ident \<noteq> [])
               then Some (v, []) else None)"

record parsed =
  major :: string
  minor :: string
  patch :: string
  short :: string
  prerelease :: string
  build :: string

definition dot_then :: "string \<Rightarrow> string option" where
  "dot_then v = (case v of [] \<Rightarrow> None | c # cs \<Rightarrow> if c = CHR ''.'' then Some cs else None)"

definition parse :: "string \<Rightarrow> parsed option" where
  "parse v =
     (case v of
        [] \<Rightarrow> None
      | c # v1 \<Rightarrow>
          if c \<noteq> CHR ''v'' then None
          else case parseInt v1 of
            None \<Rightarrow> None
          | Some (ma, v2) \<Rightarrow>
              if v2 = [] then
                Some \<lparr>major = ma, minor = ''0'', patch = ''0'', short = ''.0.0'',
                      prerelease = [], build = []\<rparr>
              else case dot_then v2 of
                None \<Rightarrow> None
              | Some v2' \<Rightarrow>
                  case parseInt v2' of
                    None \<Rightarrow> None
                  | Some (mi, v3) \<Rightarrow>
                      if v3 = [] then
                        Some \<lparr>major = ma, minor = mi, patch = ''0'', short = ''.0'',
                              prerelease = [], build = []\<rparr>
                      else case dot_then v3 of
                        None \<Rightarrow> None
                      | Some v3' \<Rightarrow>
                          case parseInt v3' of
                            None \<Rightarrow> None
                          | Some (pa, v4) \<Rightarrow>
                              case (if v4 \<noteq> [] \<and> hd v4 = CHR ''-'' then parsePrerelease v4
                                    else Some ([], v4)) of
                                None \<Rightarrow> None
                              | Some (pre, v5) \<Rightarrow>
                                  case (if v5 \<noteq> [] \<and> hd v5 = CHR ''+'' then parseBuild v5
                                        else Some ([], v5)) of
                                    None \<Rightarrow> None
                                  | Some (bld, v6) \<Rightarrow>
                                      if v6 \<noteq> [] then None
                                      else Some \<lparr>major = ma, minor = mi, patch = pa, short = [],
                                                 prerelease = pre, build = bld\<rparr>)"

definition compareInt :: "string \<Rightarrow> string \<Rightarrow> int" where
  "compareInt x y =
     (if x = y then 0
      else if length x < length y then - 1
      else if length x > length y then 1
      else if x < y then - 1 else 1)"

definition nextIdent :: "string \<Rightarrow> string \<times> string" where
  "nextIdent x = (takeWhile (\<lambda>c. c \<noteq> CHR ''.'') x, dropWhile (\<lambda>c. c \<noteq> CHR ''.'') x)"

function prerelease_loop :: "string \<Rightarrow> string \<Rightarrow> int" where
  "prerelease_loop x y =
     (if x \<noteq> [] \<and> y \<noteq> [] then
        (let (dx, x') = nextIdent (tl x); (dy, y') = nextIdent (tl y)
         in if dx \<noteq> dy then
              (let ix = isNum dx; iy = isNum dy
               in if ix \<noteq> iy then (if ix then - 1 else 1)
                  else if ix \<and> length dx < length dy then - 1
                  else if ix \<and> length dx > length dy then 1
                  else if dx < dy then - 1 else 1)
            else prerelease_loop x' y')
      else if x = [] then - 1 else 1)"
  by pat_completeness auto
termination
proof (relation "measure (\<lambda>(x, y). length x)")
  show "wf (measure (\<lambda>(x, y). length x))" by simp
next
  fix x y :: string and p dx x' q dy y'
  assume "x \<noteq> [] \<and> y \<noteq> []" and "p = nextIdent (tl x)" and "(dx, x') = p"
  then have "x' = dropWhile (\<lambda>c. c \<noteq> CHR ''.'') (tl x)" by (simp add: nextIdent_def)
  moreover have "length (dropWhile (\<lambda>c. c \<noteq> CHR ''.'') (tl x)) \<le> length (tl x)"
    by (rule length_dropWhile_le)
  moreover from \<open>x \<noteq> [] \<and> y \<noteq> []\<close> have "length (tl x) < length x" by (cases x) auto
  ultimately show "((x', y'), (x, y)) \<in> measure (\<lambda>(x, y). length x)" by simp
qed

declare prerelease_loop.simps [simp del]

definition comparePrerelease :: "string \<Rightarrow> string \<Rightarrow> int" where
  "comparePrerelease x y =
     (if x = y then 0
      else if x = [] then 1
      else if y = [] then - 1
      else prerelease_loop x y)"

definition semver_Compare :: "string \<Rightarrow> string \<Rightarrow> int" where
  "semver_Compare v w =
     (case (parse v, parse w) of
        (None, None) \<Rightarrow> 0
      | (None, Some _) \<Rightarrow> - 1
      | (Some _, None) \<Rightarrow> 1
      | (Some pv, Some pw) \<Rightarrow>
          if compareInt (major pv) (major pw) \<noteq> 0 then compareInt (major pv) (major pw)
          else if compareInt (minor pv) (minor pw) \<noteq> 0 then compareInt (minor pv) (minor pw)
          else if compareInt (patch pv) (patch pw) \<noteq> 0 then compareInt (patch pv) (patch pw)
          else comparePrerelease (prerelease pv) (prerelease pw))"

section \<open>Scanning lines\<close>

text \<open>
  \<open>bufio.Scanner\<close> with its default split function \<open>ScanLines\<close> and its default
  buffer. \<open>ScanLines\<close> lists the lines as the scanner finds them, before the carriage
  return that may end each is dropped: a final newline ends the last line and starts no
  new one. \<open>Scan\<close> gives up with \<open>ErrTooLong\<close> at a line that does not fit, together
  with its newline, in \<open>MaxScanTokenSize\<close> bytes.
\<close>

definition MaxScanTokenSize :: nat where
  "MaxScanTokenSize = 64 * 1024"

definition ScanLines :: "string \<Rightarrow> string list" where
  "ScanLines data =
     (let pieces = Split nl data in if last pieces = [] then butlast pieces else pieces)"

definition dropCR :: "string \<Rightarrow> string" where
  "dropCR data = (if data \<noteq> [] \<and> last data = CHR 0x0D then butlast data else data)"

section \<open>The providers: plans read from a tool's output\<close>

definition golangCILintCacheDirPrefix :: string where
  "golangCILintCacheDirPrefix = ''dir:''"

definition golangCILintDefaultCacheDir :: string where
  "golangCILintDefaultCacheDir = ''~/.cache/golangci-lint''"

text \<open>
  The loop of \<open>GolangCILintProvider.Plan\<close> over the scanner: it stops at the first
  line whose lower-cased, trimmed text begins with the prefix, and at a line the scanner
  cannot return. \<open>cacheDir\<close> is the value the variable has before the loop.
\<close>

fun scan_cache_dir :: "(string \<Rightarrow> string) \<Rightarrow> string list \<Rightarrow> string \<Rightarrow> error + string" where
  "scan_cache_dir unicode_lower [] cacheDir = Inr cacheDir"
| "scan_cache_dir unicode_lower (raw # rest) cacheDir =
     (if length raw \<ge> MaxScanTokenSize then Inl ErrTooLong
      else let line = TrimSpace (dropCR raw)
           in if HasPrefix (ToLower unicode_lower line) golangCILintCacheDirPrefix then
                (if length line < length golangCILintCacheDirPrefix
                 then Inl (Panic ''slice bounds out of range'')
                 else Inr (TrimSpace (drop (length golangCILintCacheDirPrefix) line)))
              else scan_cache_dir unicode_lower rest cacheDir)"

definition GolangCILintProvider_Plan :: "(string \<Rightarrow> string) \<Rightarrow> PlanRequest \<Rightarrow> error + PlanResult" where
  "GolangCILintProvider_Plan unicode_lower req =
     with_Exec (pExec req) (\<lambda>ex.
       case Output ex [''golangci-lint'', ''cache'', ''status''] of
         Inl err \<Rightarrow> Inl (Wrap ''golangci-lint cache status: '' err)
       | Inr output \<Rightarrow>
           (case scan_cache_dir unicode_lower (ScanLines output) golangCILintDefaultCacheDir of
              Inl (Panic s) \<Rightarrow> Inl (Panic s)
            | Inl err \<Rightarrow> Inl (Wrap ''scanning golangci-lint output: '' err)
            | Inr cacheDir \<Rightarrow>
                Inr \<lparr>AddEnvs = Map.empty, MountPaths = [cacheDir], RemovePaths = []\<rparr>))"

text \<open>
  The earlier \<open>GolangCILintProvider.Plan\<close> that stands in mode.go: the variable
  starts empty, and an empty result is an error.
\<close>

definition GolangCILintProvider_Plan_mode_go :: "(string \<Rightarrow> string) \<Rightarrow> PlanRequest \<Rightarrow> error + PlanResult" where
  "GolangCILintProvider_Plan_mode_go unicode_lower req =
     with_Exec (pExec req) (\<lambda>ex.
       case Output ex [''golangci-lint'', ''cache'', ''status''] of
         Inl err \<Rightarrow> Inl (Wrap ''golangci-lint cache status: '' err)
       | Inr output \<Rightarrow>
           (case scan_cache_dir unicode_lower (ScanLines output) [] of
              Inl (Panic s) \<Rightarrow> Inl (Panic s)
            | Inl err \<Rightarrow> Inl (Wrap ''scanning golangci-lint output: '' err)
            | Inr cacheDir \<Rightarrow>
                if cacheDir = [] then Inl (New ''cache dir not found in golangci-lint output'')
                else Inr \<lparr>AddEnvs = Map.empty, MountPaths = [cacheDir], RemovePaths = []\<rparr>))"

definition pnpmPackageImportMethodKey :: string where
  "pnpmPackageImportMethodKey = ''npm_config_package_import_method''"

definition pnpmPackageImportMethodValue :: string where
  "pnpmPackageImportMethodValue = ''copy''"

definition pnpmWarningFixVersion :: string where
  "pnpmWarningFixVersion = ''v9.7.0''"

text \<open>Thin space, \<open>WARN\<close>, thin space: U+2009 is the bytes E2 80 89.\<close>

definition pnpmWarningPrefix :: string where
  "pnpmWarningPrefix =
     [CHR 0xE2, CHR 0x80, CHR 0x89] @ ''WARN'' @ [CHR 0xE2, CHR 0x80, CHR 0x89]"

definition pnpm_version :: "string \<Rightarrow> string" where
  "pnpm_version versionOutput =
     ''v'' @ TrimSpace (last (Split nl (TrimSpace versionOutput)))"

definition pnpm_cacheDir :: "string \<Rightarrow> string \<Rightarrow> string" where
  "pnpm_cacheDir version output =
     (if semver_Compare version pnpmWarningFixVersion < 0 then
        TrimSpace (Join (filter (\<lambda>line. \<not> HasPrefix line pnpmWarningPrefix) (Split nl output)) [nl])
      else TrimSpace output)"

text \<open>
  \<open>PnpmProvider.Plan\<close> and \<open>YarnProvider.Plan\<close> return, next to their result, the
  commands they handed to \<open>Exec.Output\<close>, in order.
\<close>

definition PnpmProvider_Plan :: "PlanRequest \<Rightarrow> (error + PlanResult) \<times> string list list" where
  "PnpmProvider_Plan req =
     (case pExec req of
        None \<Rightarrow> (Inl (Panic ''nil pointer dereference''), [])
      | Some ex \<Rightarrow>
          let versionCmd = [''pnpm'', ''--version''] in
          case Output ex versionCmd of
            Inl err \<Rightarrow> (Inl (Wrap ''pnpm --version: '' err), [versionCmd])
          | Inr versionOutput \<Rightarrow>
              let version = pnpm_version versionOutput;
                  cmd = [''pnpm'', ''store'', ''path'', ''--loglevel'', ''error''] in
              case Output ex cmd of
                Inl err \<Rightarrow> (Inl (Wrap ''pnpm store path: '' err), [versionCmd, cmd])
              | Inr output \<Rightarrow>
                  let cacheDir = pnpm_cacheDir version output in
                  if cacheDir = [] then
                    (Inl (New ''empty cache dir from pnpm store path''), [versionCmd, cmd])
                  else
                    (Inr \<lparr>AddEnvs = [pnpmPackageImportMethodKey \<mapsto> pnpmPackageImportMethodValue],
                          MountPaths = [cacheDir], RemovePaths = []\<rparr>,
                     [versionCmd, cmd]))"

definition yarnV1Prefix :: string where
  "yarnV1Prefix = ''1.''"

definition YarnProvider_Plan :: "PlanRequest \<Rightarrow> (error + PlanResult) \<times> string list list" where
  "YarnProvider_Plan req =
     (case pExec req of
        None \<Rightarrow> (Inl (Panic ''nil pointer dereference''), [])
      | Some ex \<Rightarrow>
          let versionCmd = [''yarn'', ''--version''] in
          case Output ex versionCmd of
            Inl err \<Rightarrow> (Inl (Wrap ''yarn --version: '' err), [versionCmd])
          | Inr versionOutput \<Rightarrow>
              let version = TrimSpace versionOutput;
                  cmd = (if HasPrefix version yarnV1Prefix then [''yarn'', ''cache'', ''dir'']
                         else [''yarn'', ''config'', ''get'', ''cacheFolder'']) in
              case Output ex cmd of
                Inl err \<Rightarrow> (Inl (Wrap ''yarn cache dir: '' err), [versionCmd, cmd])
              | Inr output \<Rightarrow>
                  let cacheDir = TrimSpace output in
                  if cacheDir = [] then (Inl (New ''empty cache dir from yarn''), [versionCmd, cmd])
                  else
                    (Inr \<lparr>AddEnvs = Map.empty, MountPaths = [cacheDir], RemovePaths = []\<rparr>,
                     [versionCmd, cmd]))"

text \<open>
  Machines for the examples: one on which \<open>pnpm --version\<close> and \<open>pnpm store path\<close>
  print the given texts, one for yarn, one for golangci-lint.
\<close>

definition pnpm_machine :: "string \<Rightarrow> string \<Rightarrow> mode_Executor" where
  "pnpm_machine versionOutput storeOutput =
     \<lparr>LookPath = (\<lambda>_. Inl ErrNotFound),
      Output = (\<lambda>cmd. if cmd = [''pnpm'', ''--version''] then Inr versionOutput
                      else if cmd = [''pnpm'', ''store'', ''path'', ''--loglevel'', ''error'']
                      then Inr storeOutput else Inl ErrNotFound),
      Stat = (\<lambda>_. Some ErrNotExist), ReadDir = (\<lambda>_. Inl ErrNotExist)\<rparr>"

definition yarn_machine :: "string \<Rightarrow> string \<Rightarrow> mode_Executor" where
  "yarn_machine versionOutput cacheOutput =
     \<lparr>LookPath = (\<lambda>_. Inl ErrNotFound),
      Output = (\<lambda>cmd. if cmd = [''yarn'', ''--version''] then Inr versionOutput
                      else if cmd = [''yarn'', ''cache'', ''dir''] then Inr cacheOutput
                      else Inl ErrNotFound),
      Stat = (\<lambda>_. Some ErrNotExist), ReadDir = (\<lambda>_. Inl ErrNotExist)\<rparr>"

definition golangci_machine :: "string \<Rightarrow> mode_Executor" where
  "golangci_machine statusOutput =
     \<lparr>LookPath = (\<lambda>_. Inl ErrNotFound), Output = (\<lambda>_. Inr statusOutput),
      Stat = (\<lambda>_. Some ErrNotExist), ReadDir = (\<lambda>_. Inl ErrNotExist)\<rparr>"

definition warned_store_path :: string where
  "warned_store_path =
     pnpmWarningPrefix @ '' some warning'' @ [nl] @ ''/home/user/.local/share/pnpm/store/v3'' @ [nl]"

text \<open>What \<open>pnpm --version\<close> and \<open>yarn --version\<close> print, for three releases.\<close>

definition pnpm_9_6_0 :: string where
  "pnpm_9_6_0 = ''9.6.0'' @ [nl]"

definition pnpm_9_7_0 :: string where
  "pnpm_9_7_0 = ''9.7.0'' @ [nl]"

definition yarn_1_22_19 :: string where
  "yarn_1_22_19 = ''1.22.19'' @ [nl]"

text \<open>
  Two outputs of \<open>golangci-lint cache status\<close> without a \<open>Dir:\<close> line: a size line
  only, and a single line of 65536 letters.
\<close>

definition size_only :: string where
  "size_only = ''Size: 123MB'' @ [nl]"

definition long_line :: string where
  "long_line = replicate 65536 (CHR ''a'')"

section \<open>Paths\<close>

text \<open>
  \<open>filepath.Clean\<close>, \<open>filepath.Join\<close> and \<open>filepath.Dir\<close> of Go's
  path/filepath, for slash-separated paths. \<open>Clean\<close> works on the elements between
  slashes: empty elements and \<open>.\<close> vanish, \<open>..\<close> removes the element before it,
  stays when there is none to remove in a relative path, and vanishes at the root.
\<close>

fun Clean_elems :: "bool \<Rightarrow> string list \<Rightarrow> string list \<Rightarrow> string list" where
  "Clean_elems rooted [] out = out"
| "Clean_elems rooted (e # es) out =
     (if e = [] \<or> e = ''.'' then Clean_elems rooted es out
      else if e = ''..'' then
        (if out \<noteq> [] \<and> last out \<noteq> ''..'' then Clean_elems rooted es (butlast out)
         else if \<not> rooted then Clean_elems rooted es (out @ [''..''])
         else Clean_elems rooted es out)
      else Clean_elems rooted es (out @ [e]))"

definition filepath_Clean :: "string \<Rightarrow> string" where
  "filepath_Clean path =
     (case path of
        [] \<Rightarrow> ''.''
      | c # _ \<Rightarrow>
          let rooted = (c = CHR ''/'');
              out = Clean_elems rooted (Split (CHR ''/'') path) []
          in if rooted then ''/'' @ Join out ''/''
             else if out = [] then ''.'' else Join out ''/'')"

definition filepath_Join :: "string list \<Rightarrow> string" where
  "filepath_Join elem =
     (case dropWhile (\<lambda>e. e = []) elem of
        [] \<Rightarrow> []
      | es \<Rightarrow> filepath_Clean (Join es ''/''))"

definition filepath_Dir :: "string \<Rightarrow> string" where
  "filepath_Dir path = filepath_Clean (rev (dropWhile (\<lambda>c. c \<noteq> CHR ''/'') (rev path)))"

section \<open>Package cache: the mount orchestrator\<close>

definition privateNamespaceDir :: string where
  "privateNamespaceDir = ''.ns''"

definition metadataFilename :: string where
  "metadataFilename = ''cache-metadata.json''"

record MountRequest =
  DetectAllModes :: bool
  DetectModes :: "string list"
  ManualModes :: "string list"
  ManualPaths :: "string list"

record DiskUsage =
  Total :: string
  Used :: string

record MountResult =
  Mode :: string
  CachePath :: string
  MountPath :: string
  CacheHit :: bool

text \<open>
  \<open>MountResponse\<close>, with the fields of its \<open>Input\<close> and \<open>Output\<close> structs side
  by side. A nil map and an empty one are the same map here.
\<close>

record MountResponse =
  Input_Modes :: "string list"
  Input_Paths :: "string list"
  Output_DestructiveMode :: bool
  Output_AddEnvs :: "string \<rightharpoonup> string"
  Output_DiskUsage :: "DiskUsage option"
  Output_Mounts :: "MountResult list"
  Output_RemovedPaths :: "string list"

definition MountResponse_zero :: MountResponse where
  "MountResponse_zero =
     \<lparr>Input_Modes = [], Input_Paths = [], Output_DestructiveMode = False,
      Output_AddEnvs = Map.empty, Output_DiskUsage = None, Output_Mounts = [],
      Output_RemovedPaths = []\<rparr>"

record CacheMetadataEntry =
  CacheFramework :: "string option"
  MountTarget :: "string list"
  Source :: string

record CacheMetadata =
  UpdatedAt :: string
  Version :: int
  UserRequest :: "string \<rightharpoonup> CacheMetadataEntry"

text \<open>
  \<open>cache.Executor\<close>: the file system that the orchestrator acts on. Its state has
  type \<open>'fs\<close>; \<open>Stat\<close> and \<open>DiskUsage\<close> read it, the other operations may change
  it, and any of them may fail. The permission bits are the last argument.
\<close>

record 'fs Executor =
  xDiskUsage :: "'fs \<Rightarrow> string \<Rightarrow> error + DiskUsage"
  xMkdirAll :: "'fs \<Rightarrow> string \<Rightarrow> nat \<Rightarrow> error option \<times> 'fs"
  xMount :: "'fs \<Rightarrow> string \<Rightarrow> string \<Rightarrow> error option \<times> 'fs"
  xRemoveAll :: "'fs \<Rightarrow> string \<Rightarrow> error option \<times> 'fs"
  xStat :: "'fs \<Rightarrow> string \<Rightarrow> error option"
  xWriteFile :: "'fs \<Rightarrow> string \<Rightarrow> string \<Rightarrow> nat \<Rightarrow> error option \<times> 'fs"

record 'fs Mounter =
  DestructiveMode :: bool
  CacheRoot :: string
  Exec :: "'fs Executor"
  Modes :: Modes

text \<open>
  What the orchestrator takes from its surroundings: the home directory
  (\<open>os.UserHomeDir\<close>), the clock, already formatted (\<open>time.Now\<close>), the JSON encoder
  (\<open>json.MarshalIndent\<close>), the quoting of \<open>%q\<close> in error messages
  (\<open>strconv.Quote\<close>) and the machine seen through \<open>mode.DefaultExecutor\<close>; and the
  three choices the Go run time makes: the order in which the tasks of \<open>Modes.Detect\<close>
  and of \<open>Modes.Plan\<close> finish, and the order in which \<open>range\<close> visits the plans.
\<close>

record Env =
  UserHomeDir :: "error + string"
  Now :: string
  MarshalIndent :: "CacheMetadata \<Rightarrow> error + string"
  Quote :: "string \<Rightarrow> string"
  DefaultExecutor :: mode_Executor
  detect_finish :: "nat list"
  plan_finish :: "nat list"
  range_order :: "nat list"

text \<open>
  Every call of an \<open>Executor\<close> method is recorded, in order; a call of \<open>Stat\<close>
  with the error it returned.
\<close>

datatype Call =
    Call_DiskUsage string
  | Call_MkdirAll string nat
  | Call_Mount string string
  | Call_RemoveAll string
  | Call_Stat string "error option"
  | Call_WriteFile string string nat

record 'fs World =
  fs :: 'fs
  calls :: "Call list"


definition do_Stat :: "'fs Mounter \<Rightarrow> 'fs World \<Rightarrow> string \<Rightarrow> error option \<times> 'fs World" where
  "do_Stat m w name =
     (xStat (Exec m) (fs w) name,
      w\<lparr>calls := calls w @ [Call_Stat name (xStat (Exec m) (fs w) name)]\<rparr>)"

definition do_Mount :: "'fs Mounter \<Rightarrow> 'fs World \<Rightarrow> string \<Rightarrow> string \<Rightarrow> error option \<times> 'fs World" where
  "do_Mount m w from to =
     (case xMount (Exec m) (fs w) from to of
        (err, fs') \<Rightarrow> (err, \<lparr>fs = fs', calls = calls w @ [Call_Mount from to]\<rparr>))"

definition do_RemoveAll :: "'fs Mounter \<Rightarrow> 'fs World \<Rightarrow> string \<Rightarrow> error option \<times> 'fs World" where
  "do_RemoveAll m w name =
     (case xRemoveAll (Exec m) (fs w) name of
        (err, fs') \<Rightarrow> (err, \<lparr>fs = fs', calls = calls w @ [Call_RemoveAll name]\<rparr>))"

definition do_MkdirAll :: "'fs Mounter \<Rightarrow> 'fs World \<Rightarrow> string \<Rightarrow> nat \<Rightarrow> error option \<times> 'fs World" where
  "do_MkdirAll m w path perm =
     (case xMkdirAll (Exec m) (fs w) path perm of
        (err, fs') \<Rightarrow> (err, \<lparr>fs = fs', calls = calls w @ [Call_MkdirAll path perm]\<rparr>))"

definition do_WriteFile ::
  "'fs Mounter \<Rightarrow> 'fs World \<Rightarrow> string \<Rightarrow> string \<Rightarrow> nat \<Rightarrow> error option \<times> 'fs World" where
  "do_WriteFile m w name data perm =
     (case xWriteFile (Exec m) (fs w) name data perm of
        (err, fs') \<Rightarrow> (err, \<lparr>fs = fs', calls = calls w @ [Call_WriteFile name data perm]\<rparr>))"

definition do_DiskUsage :: "'fs Mounter \<Rightarrow> 'fs World \<Rightarrow> string \<Rightarrow> (error + DiskUsage) \<times> 'fs World" where
  "do_DiskUsage m w path =
     (xDiskUsage (Exec m) (fs w) path, w\<lparr>calls := calls w @ [Call_DiskUsage path]\<rparr>)"

definition MountRequest_EnabledModes :: "MountRequest \<Rightarrow> Env \<Rightarrow> Modes \<Rightarrow> error + Modes" where
  "MountRequest_EnabledModes req env avail =
     (if \<not> DetectAllModes req \<and> length (DetectModes req) = 0 \<and> length (ManualModes req) = 0
         \<and> length (ManualPaths req) = 0
      then Inl (New ''at least one cache mode or path must be specified'')
      else
        let enabled = ManualModes req;
            detect = (if DetectAllModes req then Modes_Names avail else DetectModes req)
        in if length detect > 0 then
             (case Modes_Filter avail detect of
                Inl err \<Rightarrow> Inl err
              | Inr filtered \<Rightarrow>
                  (case Modes_Detect (DefaultExecutor env) (detect_finish env) filtered
                          \<lparr>dExec = Some (DefaultExecutor env)\<rparr> of
                     Inl err \<Rightarrow> Inl err
                   | Inr detected \<Rightarrow> Modes_Filter avail (enabled @ Modes_Names detected)))
           else Modes_Filter avail enabled)"

definition resolveHome :: "error + string \<Rightarrow> string \<Rightarrow> error + string" where
  "resolveHome userHomeDir path =
     (if \<not> HasPrefix path ''~'' then Inr path
      else case userHomeDir of
        Inl err \<Rightarrow> Inl (Wrap ''get user home dir: '' err)
      | Inr home \<Rightarrow>
          if path = ''~'' then Inr home
          else if HasPrefix path ''~/'' then Inr (filepath_Join [home, drop 2 path])
          else Inr path)"

definition mountPath ::
  "'fs Mounter \<Rightarrow> Env \<Rightarrow> 'fs World \<Rightarrow> string \<Rightarrow> string \<Rightarrow> (error + MountResult) \<times> 'fs World" where
  "mountPath m env w modeName path =
     (case resolveHome (UserHomeDir env) path of
        Inl err \<Rightarrow> (Inl (Wrap ''resolving path: '' err), w)
      | Inr path \<Rightarrow>
          let cachePath = filepath_Join [CacheRoot m, path];
              mount = \<lparr>Mode = modeName, CachePath = cachePath, MountPath = path, CacheHit = False\<rparr>
          in case do_Stat m w cachePath of
               (err, w1) \<Rightarrow>
                 (case (case err of
                          Some e \<Rightarrow> if \<not> errors_Is e ErrNotExist then Some e else None
                        | None \<Rightarrow> None) of
                    Some e \<Rightarrow>
                      (Inl (Wrap (''stat cache path '' @ Quote env cachePath @ '': '') e), w1)
                  | None \<Rightarrow>
                      let mount = mount\<lparr>CacheHit := (err = None)\<rparr>
                      in if \<not> DestructiveMode m then (Inr mount, w1)
                         else case do_Mount m w1 cachePath path of
                                (Some err, w2) \<Rightarrow>
                                  (Inl (Wrap (''mounting '' @ Quote env cachePath @ '' to '' @
                                              Quote env path @ '': '') err), w2)
                              | (None, w2) \<Rightarrow> (Inr mount, w2)))"

text \<open>
  The loop that \<open>mountModes\<close> runs over a plan's \<open>MountPaths\<close> (with the provider's
  name and the label \<open>mounting mode path\<close>) and that \<open>mountPaths\<close> runs over the
  manual paths (with the empty name and the label \<open>mounting path\<close>).
\<close>

fun mount_each ::
  "'fs Mounter \<Rightarrow> Env \<Rightarrow> string \<Rightarrow> string \<Rightarrow> 'fs World \<Rightarrow> string list \<Rightarrow> MountResponse
   \<Rightarrow> (error + MountResponse) \<times> 'fs World" where
  "mount_each m env label modeName w [] result = (Inr result, w)"
| "mount_each m env label modeName w (path # paths) result =
     (case mountPath m env w modeName path of
        (Inl err, w1) \<Rightarrow> (Inl (Wrap (label @ Quote env path @ '': '') err), w1)
      | (Inr mount, w1) \<Rightarrow>
          mount_each m env label modeName w1 paths
            (result\<lparr>Output_Mounts := Output_Mounts result @ [mount]\<rparr>))"

definition removePath ::
  "'fs Mounter \<Rightarrow> Env \<Rightarrow> 'fs World \<Rightarrow> string \<Rightarrow> MountResponse \<Rightarrow> (error + MountResponse) \<times> 'fs World" where
  "removePath m env w path result =
     (let result = result\<lparr>Output_RemovedPaths := Output_RemovedPaths result @ [path]\<rparr>
      in if \<not> DestructiveMode m then (Inr result, w)
         else case do_RemoveAll m w path of
                (Some err, w1) \<Rightarrow> (Inl (Wrap (''removing '' @ Quote env path @ '': '') err), w1)
              | (None, w1) \<Rightarrow> (Inr result, w1))"

fun remove_each ::
  "'fs Mounter \<Rightarrow> Env \<Rightarrow> 'fs World \<Rightarrow> string list \<Rightarrow> MountResponse
   \<Rightarrow> (error + MountResponse) \<times> 'fs World" where
  "remove_each m env w [] result = (Inr result, w)"
| "remove_each m env w (path # paths) result =
     (case removePath m env w path result of
        (Inl err, w1) \<Rightarrow> (Inl (Wrap (''removing mode path '' @ Quote env path @ '': '') err), w1)
      | (Inr result, w1) \<Rightarrow> remove_each m env w1 paths result)"

text \<open>The body of \<open>for modeName, p := range plan\<close>, over the plans as visited.\<close>

fun mount_plans ::
  "'fs Mounter \<Rightarrow> Env \<Rightarrow> 'fs World \<Rightarrow> (string \<times> PlanResult) list \<Rightarrow> MountResponse
   \<Rightarrow> (error + MountResponse) \<times> 'fs World" where
  "mount_plans m env w [] result = (Inr result, w)"
| "mount_plans m env w ((modeName, p) # rest) result =
     (case mount_each m env ''mounting mode path '' modeName w (MountPaths p) result of
        (Inl err, w1) \<Rightarrow> (Inl err, w1)
      | (Inr result, w1) \<Rightarrow>
          let result = result\<lparr>Output_AddEnvs := Output_AddEnvs result ++ AddEnvs p\<rparr>
          in case remove_each m env w1 (RemovePaths p) result of
               (Inl err, w2) \<Rightarrow> (Inl err, w2)
             | (Inr result, w2) \<Rightarrow> mount_plans m env w2 rest result)"

definition mountModes ::
  "'fs Mounter \<Rightarrow> Env \<Rightarrow> 'fs World \<Rightarrow> Modes \<Rightarrow> MountResponse
   \<Rightarrow> (error + MountResponse) \<times> 'fs World" where
  "mountModes m env w modes result =
     (let result = result\<lparr>Input_Modes := Modes_Names modes\<rparr>
      in case Modes_Plan (DefaultExecutor env) (plan_finish env) modes
                \<lparr>pExec = None, enabledModes = []\<rparr> of
           Inl err \<Rightarrow> (Inl err, w)
         | Inr plan \<Rightarrow> mount_plans m env w (in_order (range_order env) plan) result)"

definition mountPaths ::
  "'fs Mounter \<Rightarrow> Env \<Rightarrow> 'fs World \<Rightarrow> string list \<Rightarrow> MountResponse
   \<Rightarrow> (error + MountResponse) \<times> 'fs World" where
  "mountPaths m env w paths result =
     mount_each m env ''mounting path '' [] w paths
       (result\<lparr>Input_Paths := Input_Paths result @ paths\<rparr>)"

definition metadata_of :: "Env \<Rightarrow> MountResult list \<Rightarrow> CacheMetadata" where
  "metadata_of env mounts =
     \<lparr>UpdatedAt = Now env, Version = 1,
      UserRequest =
        fold (\<lambda>mount ur. ur(CachePath mount \<mapsto>
                \<lparr>CacheFramework = (if Mode mount \<noteq> [] then Some (Mode mount) else None),
                 MountTarget = [MountPath mount], Source = ''space''\<rparr>))
          mounts Map.empty\<rparr>"

definition writeMetadata ::
  "'fs Mounter \<Rightarrow> Env \<Rightarrow> 'fs World \<Rightarrow> MountResponse \<Rightarrow> error option \<times> 'fs World" where
  "writeMetadata m env w result =
     (let metadataPath = filepath_Join [CacheRoot m, privateNamespaceDir, metadataFilename]
      in if \<not> DestructiveMode m then (None, w)
         else case MarshalIndent env (metadata_of env (Output_Mounts result)) of
           Inl err \<Rightarrow> (Some (Wrap ''marshaling metadata: '' err), w)
         | Inr data \<Rightarrow>
             (case do_MkdirAll m w (filepath_Dir metadataPath) 493 of
                (Some err, w1) \<Rightarrow> (Some (Wrap ''creating metadata directory: '' err), w1)
              | (None, w1) \<Rightarrow>
                  (case do_WriteFile m w1 metadataPath data 420 of
                     (Some err, w2) \<Rightarrow> (Some (Wrap ''writing metadata file: '' err), w2)
                   | (None, w2) \<Rightarrow> (None, w2))))"

text \<open>
  \<open>Mounter.Mount\<close>, started on the file system \<open>fs0\<close> with no call made yet. On an
  error the response is the zero value, which \<open>Inl\<close> stands for.
\<close>

definition Mounter_Mount ::
  "'fs Mounter \<Rightarrow> Env \<Rightarrow> 'fs \<Rightarrow> MountRequest \<Rightarrow> (error + MountResponse) \<times> 'fs World" where
  "Mounter_Mount m env fs0 req =
     (let w = \<lparr>fs = fs0, calls = []\<rparr>;
          result = MountResponse_zero\<lparr>Output_DestructiveMode := DestructiveMode m\<rparr>
      in case MountRequest_EnabledModes req env (Modes m) of
           Inl err \<Rightarrow> (Inl err, w)
         | Inr modes \<Rightarrow>
             (case mountModes m env w modes result of
                (Inl err, w1) \<Rightarrow> (Inl err, w1)
              | (Inr result, w1) \<Rightarrow>
                  (case mountPaths m env w1 (ManualPaths req) result of
                     (Inl err, w2) \<Rightarrow> (Inl err, w2)
                   | (Inr result, w2) \<Rightarrow>
                       (case writeMetadata m env w2 result of
                          (Some err, w3) \<Rightarrow> (Inl err, w3)
                        | (None, w3) \<Rightarrow>
                            (case do_DiskUsage m w3 (CacheRoot m) of
                               (Inr usage, w4) \<Rightarrow>
                                 (Inr (result\<lparr>Output_DiskUsage := Some usage\<rparr>), w4)
                             | (Inl _, w4) \<Rightarrow> (Inr result, w4))))))"

text \<open>
  For the examples: surroundings in which the home directory is \<open>/home/u\<close> and
  nothing is installed; an executor without state whose \<open>Mount\<close> fails; and an executor
  whose state is the list of paths that exist, on which \<open>Mount\<close> creates the cache path
  as \<open>DefaultExecutor.Mount\<close> does with \<open>os.MkdirAll\<close>.
\<close>

definition plain_env :: Env where
  "plain_env =
     \<lparr>UserHomeDir = Inr ''/home/u'', Now = ''2026-01-01T00:00:00Z'',
      MarshalIndent = (\<lambda>_. Inr ''{}''), Quote = (\<lambda>s. [CHR 0x22] @ s @ [CHR 0x22]),
      DefaultExecutor = bare_machine, detect_finish = [], plan_finish = [], range_order = []\<rparr>"


definition existing_paths :: "string list Executor" where
  "existing_paths =
     \<lparr>xDiskUsage = (\<lambda>_ _. Inl (New ''df failed'')),
      xMkdirAll = (\<lambda>s path _. (None, path # s)),
      xMount = (\<lambda>s from _. (None, from # s)),
      xRemoveAll = (\<lambda>s name. (None, filter (\<lambda>p. p \<noteq> name) s)),
      xStat = (\<lambda>s name. if name \<in> set s then None else Some ErrNotExist),
      xWriteFile = (\<lambda>s name _ _. (None, name # s))\<rparr>"

definition manual_paths :: "string list \<Rightarrow> MountRequest" where
  "manual_paths paths =
     \<lparr>DetectAllModes = False, DetectModes = [], ManualModes = [], ManualPaths = paths\<rparr>"



definition dry :: "'fs Mounter \<Rightarrow> 'fs Mounter" where
  "dry m = m\<lparr>DestructiveMode := False\<rparr>"



definition visited_plans :: "'fs Mounter \<Rightarrow> Env \<Rightarrow> MountRequest \<Rightarrow> (string \<times> PlanResult) list" where
  "visited_plans m env req =
     (case MountRequest_EnabledModes req env (Modes m) of
        Inl err \<Rightarrow> []
      | Inr modes \<Rightarrow>
          (case Modes_Plan (DefaultExecutor env) (plan_finish env) modes
                  \<lparr>pExec = None, enabledModes = []\<rparr> of
             Inl err \<Rightarrow> []
           | Inr plan \<Rightarrow> in_order (range_order env) plan))"

definition plan_paths :: "(string \<times> PlanResult) list \<Rightarrow> (string \<times> string) list" where
  "plan_paths plans = concat (map (\<lambda>(modeName, p). map (Pair modeName) (MountPaths p)) plans)"

definition requested_paths :: "'fs Mounter \<Rightarrow> Env \<Rightarrow> MountRequest \<Rightarrow> (string \<times> string) list" where
  "requested_paths m env req =
     plan_paths (visited_plans m env req) @ map (Pair []) (ManualPaths req)"

text \<open>
  \<open>requested_entry m env (modeName, path) mount\<close>: the entry \<open>mount\<close> of \<open>Mounts\<close>
  is the one for the path \<open>path\<close> of the mode \<open>modeName\<close>; it carries the mode, the
  path with the home directory resolved, and the cache path below the cache root.
  \<open>stat_decides (name, err) mount\<close>: the call of \<open>Stat\<close> was made on the cache path
  of the entry, and the entry is a hit if the call succeeded and a miss if it reported
  not-found. \<open>same_mount\<close>: two entries that differ at most in \<open>CacheHit\<close>.
\<close>

definition requested_entry :: "'fs Mounter \<Rightarrow> Env \<Rightarrow> string \<times> string \<Rightarrow> MountResult \<Rightarrow> bool" where
  "requested_entry m env request mount =
     (Mode mount = fst request \<and>
      resolveHome (UserHomeDir env) (snd request) = Inr (MountPath mount) \<and>
      CachePath mount = filepath_Join [CacheRoot m, MountPath mount])"
























section \<open>Properties of the registry\<close>


lemma available_Some_iff: "(\<exists>m. available modes n = Some m) \<longleftrightarrow> n \<in> Name ` set modes"
proof -
  have "(available modes n = None) = (n \<notin> Name ` set modes)"
    unfolding available_def by (simp add: map_of_eq_None_iff image_image)
  then show ?thesis by auto
qed

lemma available_SomeD: "available modes n = Some m \<Longrightarrow> m \<in> set modes \<and> Name m = n"
  unfolding available_def by (auto dest!: map_of_SomeD)

lemma Filter_loop_unknown:
  "find (\<lambda>n. n \<notin> Name ` set modes) names = Some n \<Longrightarrow>
   Filter_loop (available modes) names acc = Inl (New (''unknown mode: '' @ n))"
proof (induction names arbitrary: acc)
  case Nil then show ?case by simp
next
  case (Cons a names)
  show ?case
  proof (cases "a \<in> Name ` set modes")
    case True
    then obtain m where "available modes a = Some m" using available_Some_iff by blast
    with Cons True show ?thesis by simp
  next
    case False
    then have "available modes a = None" using available_Some_iff by (metis not_None_eq)
    with Cons False show ?thesis by simp
  qed
qed

lemma Filter_loop_known:
  "find (\<lambda>n. n \<notin> Name ` set modes) names = None \<Longrightarrow>
   \<exists>ps. Filter_loop (available modes) names acc = Inr (acc @ ps) \<and> map Name ps = names \<and> set ps \<subseteq> set modes"
proof (induction names arbitrary: acc)
  case Nil then show ?case by simp
next
  case (Cons a names)
  from Cons.prems have a: "a \<in> Name ` set modes" and r: "find (\<lambda>n. n \<notin> Name ` set modes) names = None"
    by (auto split: if_splits)
  from a obtain m where m: "available modes a = Some m" using available_Some_iff by blast
  from Cons.IH[OF r, of "acc @ [m]"] obtain ps where
    ps: "Filter_loop (available modes) names (acc @ [m]) = Inr ((acc @ [m]) @ ps)" "map Name ps = names" "set ps \<subseteq> set modes"
    by blast
  show ?case
    using m ps available_SomeD[OF m] by (intro exI[of _ "m # ps"]) simp
qed

text \<open>
  Claim C5, as amended. For every registry that is not empty and every list of names:
  when some name is absent from the registry, \<open>Filter\<close> fails with
  \<open>unknown mode: n\<close> for the first absent name \<open>n\<close> (and reports no other);
  otherwise it returns providers of the registry whose names are, position by position,
  the names given.
\<close>

theorem Filter_keeps_order_or_names_first_unknown:
  assumes "modes \<noteq> []"
  shows "(\<forall>n. find (\<lambda>n. n \<notin> Name ` set modes) names = Some n \<longrightarrow>
            Modes_Filter modes names = Inl (New (''unknown mode: '' @ n))) \<and>
         (find (\<lambda>n. n \<notin> Name ` set modes) names = None \<longrightarrow>
            (\<exists>ps. Modes_Filter modes names = Inr ps \<and> map Name ps = names \<and> set ps \<subseteq> set modes))"
  using assms Filter_loop_unknown[of modes names _ "[]"] Filter_loop_known[of modes names "[]"]
  by (simp add: Modes_Filter_def)

theorem Filter_witness:
  "apt_go \<noteq> [] \<and>
   map Name apt_go = [''apt'', ''go''] \<and>
   Modes_Filter apt_go [''go'', ''apt''] = Inr [apt_go ! 1, apt_go ! 0] \<and>
   Modes_Filter apt_go [''go'', ''invalid'', ''worse'', ''apt''] = Inl (New ''unknown mode: invalid'')"
  using Filter_keeps_order_or_names_first_unknown[of apt_go "[''go'', ''apt'']"]
        Filter_keeps_order_or_names_first_unknown[of apt_go "[''go'', ''invalid'', ''worse'', ''apt'']"]
  by (simp add: apt_go_def ModeProviderMock_def Modes_Filter_def available_def)

text \<open>
  The claim as stated fails at the empty registry, which \<open>Filter\<close> answers with
  \<open>(nil, nil)\<close> whatever names are asked for.
\<close>

theorem Filter_empty_registry_counterexample:
  "''unknown-mode'' \<notin> Name ` set ([] :: Modes) \<and>
   Modes_Filter [] [''unknown-mode''] = Inr [] \<and>
   Modes_Filter [] [''unknown-mode''] \<noteq> Inl (New ''unknown mode: unknown-mode'')"
  by (simp add: Modes_Filter_def)

lemma set_in_order: "all_complete finish xs \<Longrightarrow> set (in_order finish xs) = set xs"
  unfolding all_complete_def in_order_def
  by (auto simp: in_set_conv_nth)

lemma Detect_tasks_first_error:
  "\<exists>m \<in> set ms. \<exists>e. Detect m req = Inl e \<Longrightarrow>
   \<exists>m \<in> set ms. \<exists>e. Detect m req = Inl e \<and>
      Detect_tasks req ms acc = Inl (Wrap (''detecting '' @ Name m @ '': '') e)"
proof (induction ms arbitrary: acc)
  case Nil then show ?case by simp
next
  case (Cons a ms)
  show ?case
  proof (cases "Detect a req")
    case (Inl e)
    then show ?thesis by auto
  next
    case (Inr b)
    with Cons.prems have "\<exists>m \<in> set ms. \<exists>e. Detect m req = Inl e" by auto
    from Cons.IH[OF this] Inr show ?thesis by auto
  qed
qed

lemma Plan_tasks_first_error:
  "\<exists>m \<in> set ms. \<exists>e. Plan m req = Inl e \<Longrightarrow>
   \<exists>m \<in> set ms. \<exists>e. Plan m req = Inl e \<and>
      Plan_tasks req ms acc = Inl (Wrap (''planning '' @ Name m @ '': '') e)"
proof (induction ms arbitrary: acc)
  case Nil then show ?case by simp
next
  case (Cons a ms)
  show ?case
  proof (cases "Plan a req")
    case (Inl e)
    then show ?thesis by auto
  next
    case (Inr b)
    with Cons.prems have "\<exists>m \<in> set ms. \<exists>e. Plan m req = Inl e" by auto
    from Cons.IH[OF this] Inr show ?thesis by auto
  qed
qed

text \<open>
  Claim C4. When every task completes and some provider's \<open>Detect\<close> (\<open>Plan\<close>)
  returns an error, \<open>Modes.Detect\<close> (\<open>Modes.Plan\<close>) returns an error and no
  collection: the error of one failing provider, wrapped so that its message is
  \<open>detecting\<close> (\<open>planning\<close>), the provider's name, a colon and the provider's own
  message.
\<close>

theorem batch_error_wraps_provider:
  assumes "all_complete finish modes"
  shows "((\<exists>m \<in> set modes. \<exists>e. Detect m (Detect_defaults os dreq) = Inl e) \<longrightarrow>
            (\<exists>m \<in> set modes. \<exists>e. Detect m (Detect_defaults os dreq) = Inl e \<and>
               Modes_Detect os finish modes dreq = Inl (Wrap (''detecting '' @ Name m @ '': '') e) \<and>
               Error (Wrap (''detecting '' @ Name m @ '': '') e) = ''detecting '' @ Name m @ '': '' @ Error e)) \<and>
         ((\<exists>m \<in> set modes. \<exists>e. Plan m (Plan_defaults os modes preq) = Inl e) \<longrightarrow>
            (\<exists>m \<in> set modes. \<exists>e. Plan m (Plan_defaults os modes preq) = Inl e \<and>
               Modes_Plan os finish modes preq = Inl (Wrap (''planning '' @ Name m @ '': '') e) \<and>
               Error (Wrap (''planning '' @ Name m @ '': '') e) = ''planning '' @ Name m @ '': '' @ Error e))"
proof -
  have s: "set (in_order finish modes) = set modes" using assms by (rule set_in_order)
  show ?thesis
    using Detect_tasks_first_error[of "in_order finish modes" "Detect_defaults os dreq" "[]"]
          Plan_tasks_first_error[of "in_order finish modes" "Plan_defaults os modes preq" "[]"]
    unfolding s Modes_Detect_def Modes_Plan_def by simp
qed

theorem batch_error_witness:
  "all_complete [1, 0] apt_go \<and>
   Modes_Detect bare_machine [1, 0] apt_go \<lparr>dExec = None\<rparr> =
     Inl (Wrap ''detecting go: '' (New ''detection failed'')) \<and>
   Modes_Plan bare_machine [0, 1] apt_go \<lparr>pExec = None, enabledModes = []\<rparr> =
     Inl (Wrap ''planning go: '' (New ''planning failed''))"
  using batch_error_wraps_provider[of "[1, 0]" apt_go bare_machine "\<lparr>dExec = None\<rparr>" "\<lparr>pExec = None, enabledModes = []\<rparr>"]
  by (simp add: all_complete_def apt_go_def ModeProviderMock_def Modes_Detect_def Modes_Plan_def in_order_def less_Suc_eq)

section \<open>Properties of detection\<close>


text \<open>
  Claim C6. For every provider, when the lookup of its binary fails with an error that
  is \<open>exec.ErrNotFound\<close>, \<open>Detect\<close> returns \<open>(false, nil)\<close>.
\<close>

theorem Detect_binary_not_found_is_false:
  assumes "dExec req = Some ex"
    and "LookPath ex (primary_binary p) = Inl err"
    and "errors_Is err ErrNotFound"
  shows "Provider_Detect p req = Inr False"
  using assms by (cases p) (simp_all add: with_Exec_def lookpath_then_def)

theorem Detect_binary_not_found_witness:
  "dExec \<lparr>dExec = Some bare_machine\<rparr> = Some bare_machine \<and>
   LookPath bare_machine (primary_binary AptProvider) = Inl ErrNotFound \<and>
   errors_Is ErrNotFound ErrNotFound \<and>
   Provider_Detect AptProvider \<lparr>dExec = Some bare_machine\<rparr> = Inr False"
  using Detect_binary_not_found_is_false[of "\<lparr>dExec = Some bare_machine\<rparr>" bare_machine AptProvider ErrNotFound]
  by (simp add: bare_machine_def)

lemma stat_marker_is_stat_first: "stat_marker ex file = stat_first ex [file]"
  by (simp add: stat_marker_def split: option.splits)

lemma Detect_with_markers:
  "marker_files p \<noteq> [] \<Longrightarrow> dExec req = Some ex \<Longrightarrow>
   Provider_Detect p req = lookpath_then ex (primary_binary p) (stat_first ex (marker_files p))"
  by (cases p) (simp_all add: with_Exec_def stat_marker_is_stat_first)

lemma stat_first_True:
  "stat_first ex files = Inr True \<longleftrightarrow>
   (\<exists>pre hit post. files = pre @ hit # post \<and> Stat ex hit = None \<and>
      (\<forall>f \<in> set pre. missing ex f))"
proof (induction files)
  case Nil then show ?case by simp
next
  case (Cons a files)
  show ?case
  proof (cases "Stat ex a")
    case None
    have l: "stat_first ex (a # files) = Inr True" using None by simp
    have "a # files = [] @ a # files \<and> Stat ex a = None \<and> (\<forall>f \<in> set []. missing ex f)"
      using None by simp
    then have "\<exists>pre hit post. a # files = pre @ hit # post \<and> Stat ex hit = None \<and>
      (\<forall>f \<in> set pre. missing ex f)" by blast
    with l show ?thesis by simp
  next
    case (Some err)
    show ?thesis
    proof (cases "errors_Is err ErrNotExist")
      case True
      have m: "missing ex a" using Some True by (simp add: missing_def)
      have "stat_first ex (a # files) = stat_first ex files" using Some True by simp
      moreover have "(\<exists>pre hit post. a # files = pre @ hit # post \<and> Stat ex hit = None \<and>
          (\<forall>f \<in> set pre. missing ex f)) \<longleftrightarrow>
        (\<exists>pre hit post. files = pre @ hit # post \<and> Stat ex hit = None \<and>
          (\<forall>f \<in> set pre. missing ex f))" (is "?L \<longleftrightarrow> ?R")
      proof
        assume ?L
        then obtain pre hit post where
          h: "a # files = pre @ hit # post" "Stat ex hit = None" "\<forall>f \<in> set pre. missing ex f"
          by blast
        show ?R
        proof (cases pre)
          case Nil
          with h Some show ?thesis by simp
        next
          case (Cons b pre')
          with h have "files = pre' @ hit # post" "\<forall>f \<in> set pre'. missing ex f" by auto
          with h(2) show ?thesis by blast
        qed
      next
        assume ?R
        then obtain pre hit post where
          h: "files = pre @ hit # post" "Stat ex hit = None" "\<forall>f \<in> set pre. missing ex f"
          by blast
        then have "a # files = (a # pre) @ hit # post" "\<forall>f \<in> set (a # pre). missing ex f"
          using m by auto
        with h(2) show ?L by blast
      qed
      ultimately show ?thesis using Cons.IH by simp
    next
      case False
      have n: "\<not> missing ex a" using Some False by (simp add: missing_def)
      have "stat_first ex (a # files) \<noteq> Inr True" using Some False by simp
      moreover have "\<not> (\<exists>pre hit post. a # files = pre @ hit # post \<and> Stat ex hit = None \<and>
          (\<forall>f \<in> set pre. missing ex f))"
      proof
        assume "\<exists>pre hit post. a # files = pre @ hit # post \<and> Stat ex hit = None \<and>
          (\<forall>f \<in> set pre. missing ex f)"
        then obtain pre hit post where
          h: "a # files = pre @ hit # post" "Stat ex hit = None" "\<forall>f \<in> set pre. missing ex f"
          by blast
        show False
        proof (cases pre)
          case Nil
          with h Some show ?thesis by simp
        next
          case (Cons b pre')
          with h n show ?thesis by auto
        qed
      qed
      ultimately show ?thesis by simp
    qed
  qed
qed

lemma stat_first_False:
  "stat_first ex files = Inr False \<longleftrightarrow> (\<forall>f \<in> set files. missing ex f)"
  by (induction files) (auto simp: missing_def split: option.splits)

lemma lookpath_then_True:
  "lookpath_then ex bin k = Inr True \<longleftrightarrow> (\<exists>path. LookPath ex bin = Inr path) \<and> k = Inr True"
  by (auto simp: lookpath_then_def split: sum.splits)

lemma lookpath_then_False:
  "lookpath_then ex bin k = Inr False \<longleftrightarrow>
   (\<exists>err. LookPath ex bin = Inl err \<and> errors_Is err ErrNotFound) \<or>
   ((\<exists>path. LookPath ex bin = Inr path) \<and> k = Inr False)"
  by (auto simp: lookpath_then_def split: sum.splits)

text \<open>
  Claim C7, as amended. For every provider that stats marker files: \<open>Detect\<close> returns
  \<open>(true, nil)\<close> if and only if the binary resolves and a marker file stats
  successfully, every marker tried before it being reported missing (for a provider with
  one marker file: the binary resolves and the marker stats successfully); and it returns
  \<open>(false, nil)\<close> if and only if either the lookup of the binary reports not-found, or
  the binary resolves and every marker file is reported missing.
\<close>

theorem Detect_marker_outcomes:
  assumes "marker_files p \<noteq> []" and "dExec req = Some ex"
  shows "(Provider_Detect p req = Inr True \<longleftrightarrow>
            (\<exists>path. LookPath ex (primary_binary p) = Inr path) \<and>
            (\<exists>pre hit post. marker_files p = pre @ hit # post \<and> Stat ex hit = None \<and>
               (\<forall>f \<in> set pre. missing ex f))) \<and>
         (Provider_Detect p req = Inr False \<longleftrightarrow>
            (\<exists>err. LookPath ex (primary_binary p) = Inl err \<and> errors_Is err ErrNotFound) \<or>
            ((\<exists>path. LookPath ex (primary_binary p) = Inr path) \<and>
             (\<forall>f \<in> set (marker_files p). missing ex f)))"
  unfolding Detect_with_markers[OF assms] lookpath_then_True lookpath_then_False
    stat_first_True stat_first_False
  by simp

theorem Detect_marker_witness:
  "marker_files BrewProvider \<noteq> [] \<and>
   dExec \<lparr>dExec = Some brew_machine\<rparr> = Some brew_machine \<and>
   Provider_Detect BrewProvider \<lparr>dExec = Some brew_machine\<rparr> = Inr True \<and>
   LookPath brew_machine (primary_binary BrewProvider) = Inr ''/opt/homebrew/bin/brew'' \<and>
   Stat brew_machine ''Brewfile'' = None"
  using Detect_marker_outcomes[of BrewProvider "\<lparr>dExec = Some brew_machine\<rparr>" brew_machine]
  by (simp add: brew_machine_def with_Exec_def lookpath_then_def stat_marker_def)

text \<open>
  The claim as stated fails where the binary is not installed: \<open>Detect\<close> returns
  \<open>(false, nil)\<close> there too, although the binary does not resolve.
\<close>

theorem Detect_marker_counterexample:
  "marker_files BrewProvider \<noteq> [] \<and>
   LookPath bare_machine (primary_binary BrewProvider) = Inl ErrNotFound \<and>
   Provider_Detect BrewProvider \<lparr>dExec = Some bare_machine\<rparr> = Inr False"
  by (simp add: bare_machine_def with_Exec_def lookpath_then_def)

section \<open>Properties of the string functions\<close>


lemma Split_nonempty: "Split sep s \<noteq> []"
  by (induction s) (auto split: list.splits)

lemma Split_no_sep: "sep \<notin> set s \<Longrightarrow> Split sep s = [s]"
  by (induction s) auto

lemma Split_pieces_no_sep: "l \<in> set (Split sep s) \<Longrightarrow> sep \<notin> set l"
proof (induction s arbitrary: l)
  case Nil then show ?case by simp
next
  case (Cons c cs)
  show ?case
  proof (cases "c = sep")
    case True
    with Cons show ?thesis by auto
  next
    case False
    obtain piece pieces where sp: "Split sep cs = piece # pieces"
      using Split_nonempty[of sep cs] by (cases "Split sep cs") auto
    with Cons.prems False have "l = c # piece \<or> l \<in> set pieces" by simp
    then show ?thesis
    proof
      assume "l = c # piece"
      moreover have "sep \<notin> set piece" using Cons.IH[of piece] sp by simp
      ultimately show ?thesis using False by auto
    next
      assume "l \<in> set pieces"
      then show ?thesis using Cons.IH[of l] sp by simp
    qed
  qed
qed

lemma Split_append_sep: "Split sep (u @ sep # r) = Split sep u @ Split sep r"
proof (induction u)
  case Nil then show ?case by simp
next
  case (Cons c cs)
  obtain piece pieces where sp: "Split sep cs = piece # pieces"
    using Split_nonempty[of sep cs] by (cases "Split sep cs") auto
  show ?case using Cons sp by simp
qed

lemma hd_Split_prefix: "prefix (hd (Split sep s)) s"
proof (induction s)
  case Nil then show ?case by simp
next
  case (Cons c cs)
  obtain piece pieces where sp: "Split sep cs = piece # pieces"
    using Split_nonempty[of sep cs] by (cases "Split sep cs") auto
  show ?case using Cons sp by simp
qed

lemma tl_Split_line_start:
  "l \<in> set (tl (Split sep s)) \<Longrightarrow> prefix W l \<Longrightarrow> \<exists>u v. s = u @ sep # W @ v"
proof (induction s arbitrary: l)
  case Nil then show ?case by simp
next
  case (Cons c cs)
  obtain piece pieces where sp: "Split sep cs = piece # pieces"
    using Split_nonempty[of sep cs] by (cases "Split sep cs") auto
  show ?case
  proof (cases "c = sep")
    case True
    with Cons.prems sp have "l = piece \<or> l \<in> set pieces" by simp
    then show ?thesis
    proof
      assume "l = piece"
      then have "prefix l cs" using hd_Split_prefix[of sep cs] sp by simp
      with Cons.prems(2) have "prefix W cs" by (rule prefix_order.trans)
      then obtain v where "cs = W @ v" by (auto simp: prefix_def)
      then have "c # cs = [] @ sep # W @ v" using True by simp
      then show ?thesis by blast
    next
      assume "l \<in> set pieces"
      then have "l \<in> set (tl (Split sep cs))" using sp by simp
      from Cons.IH[OF this Cons.prems(2)] obtain u v where "cs = u @ sep # W @ v" by blast
      then have "c # cs = (c # u) @ sep # W @ v" by simp
      then show ?thesis by blast
    qed
  next
    case False
    with Cons.prems sp have "l \<in> set (tl (Split sep cs))" by simp
    from Cons.IH[OF this Cons.prems(2)] obtain u v where "cs = u @ sep # W @ v" by blast
    then have "c # cs = (c # u) @ sep # W @ v" by simp
    then show ?thesis by blast
  qed
qed

lemma hd_Split_keeps_prefix: "sep \<notin> set W \<Longrightarrow> prefix W (hd (Split sep (W @ v)))"
proof (induction W)
  case Nil then show ?case by simp
next
  case (Cons c cs)
  obtain piece pieces where sp: "Split sep (cs @ v) = piece # pieces"
    using Split_nonempty[of sep "cs @ v"] by (cases "Split sep (cs @ v)") auto
  show ?case using Cons sp by auto
qed

lemma line_start_has_line:
  assumes "s = u @ sep # W @ v" and "sep \<notin> set W"
  shows "\<exists>l \<in> set (Split sep s). prefix W l"
proof -
  have "Split sep s = Split sep u @ Split sep (W @ v)"
    using assms(1) by (simp add: Split_append_sep)
  moreover have "hd (Split sep (W @ v)) \<in> set (Split sep (W @ v))"
    using Split_nonempty by (simp add: hd_in_set)
  ultimately have "hd (Split sep (W @ v)) \<in> set (Split sep s)" by simp
  with hd_Split_keeps_prefix[OF assms(2)] show ?thesis by blast
qed

lemma Split_Join:
  "ls \<noteq> [] \<Longrightarrow> \<forall>l \<in> set ls. sep \<notin> set l \<Longrightarrow> Split sep (Join ls [sep]) = ls"
proof (induction ls "[sep]" rule: Join.induct)
  case 1 then show ?case by simp
next
  case (2 piece) then show ?case by (simp add: Split_no_sep)
next
  case (3 piece v va)
  then show ?case by (simp add: Split_append_sep Split_no_sep)
qed

lemma TrimLeft_suffix: "suffix (TrimLeft s) s"
proof (induction s rule: TrimLeft.induct)
  case (1 s)
  show ?case
  proof (cases "leading_space s")
    case None
    then show ?thesis by (simp add: TrimLeft.simps)
  next
    case (Some w)
    from 1[OF Some] have "suffix (TrimLeft (drop (length w) s)) (drop (length w) s)" .
    then have "suffix (TrimLeft (drop (length w) s)) s"
      using suffix_drop suffix_order.trans by blast
    then show ?thesis using Some by (simp add: TrimLeft.simps[of s])
  qed
qed

lemma TrimLeft_no_leading_space: "leading_space (TrimLeft s) = None"
proof (induction s rule: TrimLeft.induct)
  case (1 s)
  show ?case
  proof (cases "leading_space s")
    case None
    then show ?thesis by (simp add: TrimLeft.simps)
  next
    case (Some w)
    from 1[OF Some] show ?thesis using Some by (simp add: TrimLeft.simps[of s])
  qed
qed

lemma TrimRight_prefix: "prefix (TrimRight s) s"
proof (induction s rule: TrimRight.induct)
  case (1 s)
  show ?case
  proof (cases "trailing_space s")
    case None
    then show ?thesis by (simp add: TrimRight.simps)
  next
    case (Some w)
    from 1[OF Some] have "prefix (TrimRight (take (length s - length w) s)) (take (length s - length w) s)" .
    then have "prefix (TrimRight (take (length s - length w) s)) s"
      using take_is_prefix prefix_order.trans by blast
    then show ?thesis using Some by (simp add: TrimRight.simps[of s])
  qed
qed

lemma leading_space_prefix_closed:
  assumes "leading_space s = None" and "prefix t s"
  shows "leading_space t = None"
proof -
  have "\<not> prefix w t" if "w \<in> set space_runes" for w
  proof
    assume "prefix w t"
    from this assms(2) have "prefix w s" by (rule prefix_order.trans)
    with that assms(1) show False by (auto simp: leading_space_def find_None_iff)
  qed
  then show ?thesis by (auto simp: leading_space_def find_None_iff)
qed

lemma TrimSpace_no_leading_space: "leading_space (TrimSpace s) = None"
  unfolding TrimSpace_def
  by (rule leading_space_prefix_closed[OF TrimLeft_no_leading_space TrimRight_prefix])

lemma TrimSpace_infix: "\<exists>a b. s = a @ TrimSpace s @ b"
proof -
  obtain a where a: "s = a @ TrimLeft s" using TrimLeft_suffix[of s] by (auto simp: suffix_def)
  obtain b where b: "TrimLeft s = TrimRight (TrimLeft s) @ b"
    using TrimRight_prefix[of "TrimLeft s"] by (auto simp: prefix_def)
  have "s = a @ TrimSpace s @ b" unfolding TrimSpace_def using a b by simp
  then show ?thesis by blast
qed

lemma warning_prefix_is_space: "prefix w s \<Longrightarrow> w = pnpmWarningPrefix \<Longrightarrow> leading_space s \<noteq> None"
proof -
  assume p: "prefix w s" and w: "w = pnpmWarningPrefix"
  have "prefix [CHR 0xE2, CHR 0x80, CHR 0x89] pnpmWarningPrefix"
    by (simp add: pnpmWarningPrefix_def)
  with p w have "prefix [CHR 0xE2, CHR 0x80, CHR 0x89] s" using prefix_order.trans by blast
  moreover have "[CHR 0xE2, CHR 0x80, CHR 0x89] \<in> set space_runes" by (simp add: space_runes_def)
  ultimately show ?thesis by (auto simp: leading_space_def find_None_iff)
qed

lemma nl_not_in_warning: "nl \<notin> set pnpmWarningPrefix"
  by (simp add: pnpmWarningPrefix_def nl_def)

lemma filtered_lines_stay_clean:
  assumes "\<forall>l \<in> set ls. \<not> prefix pnpmWarningPrefix l" and "\<forall>l \<in> set ls. nl \<notin> set l"
    and "line \<in> set (Split nl (TrimSpace (Join ls [nl])))"
  shows "\<not> prefix pnpmWarningPrefix line"
proof
  assume bad: "prefix pnpmWarningPrefix line"
  let ?j = "Join ls [nl]" and ?t = "TrimSpace (Join ls [nl])"
  have lines_j: "\<forall>l \<in> set (Split nl ?j). \<not> prefix pnpmWarningPrefix l"
  proof (cases "ls = []")
    case True
    then show ?thesis by (simp add: pnpmWarningPrefix_def)
  next
    case False
    then show ?thesis using assms(1,2) by (simp add: Split_Join)
  qed
  obtain a b where ab: "?j = a @ ?t @ b" using TrimSpace_infix by blast
  have "Split nl ?t = hd (Split nl ?t) # tl (Split nl ?t)"
    using Split_nonempty[of nl ?t] by simp
  with assms(3) have "line = hd (Split nl ?t) \<or> line \<in> set (tl (Split nl ?t))"
    by (metis set_ConsD)
  then show False
  proof
    assume "line = hd (Split nl ?t)"
    then have "prefix line ?t" using hd_Split_prefix by simp
    with bad have "prefix pnpmWarningPrefix ?t" by (rule prefix_order.trans)
    then have "leading_space ?t \<noteq> None" by (rule warning_prefix_is_space) simp
    then show False using TrimSpace_no_leading_space by simp
  next
    assume "line \<in> set (tl (Split nl ?t))"
    from tl_Split_line_start[OF this bad] obtain u v where "?t = u @ nl # pnpmWarningPrefix @ v"
      by blast
    with ab have "?j = (a @ u) @ nl # pnpmWarningPrefix @ (v @ b)" by simp
    from line_start_has_line[OF this nl_not_in_warning] lines_j show False by blast
  qed
qed

section \<open>Properties of the plans\<close>


lemma pnpm_cacheDir_below:
  assumes "semver_Compare version pnpmWarningFixVersion < 0"
    and "line \<in> set (Split nl (pnpm_cacheDir version output))"
  shows "\<not> HasPrefix line pnpmWarningPrefix"
proof -
  let ?ls = "filter (\<lambda>line. \<not> HasPrefix line pnpmWarningPrefix) (Split nl output)"
  have 1: "\<forall>l \<in> set ?ls. \<not> prefix pnpmWarningPrefix l" by (simp add: HasPrefix_def)
  have 2: "\<forall>l \<in> set ?ls. nl \<notin> set l" using Split_pieces_no_sep by auto
  have 3: "line \<in> set (Split nl (TrimSpace (Join ?ls [nl])))"
    using assms by (simp add: pnpm_cacheDir_def)
  show ?thesis unfolding HasPrefix_def by (rule filtered_lines_stay_clean[OF 1 2 3])
qed

text \<open>
  Claim C8, as amended. \<open>PnpmProvider.Plan\<close>: when the reported version is below
  \<open>v9.7.0\<close>, no line of the resolved cache path begins with the warning prefix; when
  it is at or above, the cache path is the trimmed output, unfiltered; and in both cases
  the command that follows \<open>pnpm --version\<close> is the same
  \<open>pnpm store path --loglevel error\<close>. It is \<open>YarnProvider.Plan\<close> that chooses
  between two commands, \<open>yarn cache dir\<close> when the reported version begins with
  \<open>1.\<close> and \<open>yarn config get cacheFolder\<close> otherwise; and it filters no
  lines: when the chosen command succeeds, its cache path is the trimmed output of that
  command (an error when that is empty), and when the command fails, \<open>Plan\<close> returns
  that error wrapped.
\<close>

theorem pnpm_filters_below_threshold_yarn_picks_command:
  assumes "pExec req = Some ex"
    and "Output ex [''pnpm'', ''--version''] = Inr versionOutput"
    and "Output ex [''pnpm'', ''store'', ''path'', ''--loglevel'', ''error''] = Inr output"
    and "pExec yreq = Some yex"
    and "Output yex [''yarn'', ''--version''] = Inr yarnVersion"
  shows "fst (PnpmProvider_Plan req) =
           (if pnpm_cacheDir (pnpm_version versionOutput) output = []
            then Inl (New ''empty cache dir from pnpm store path'')
            else Inr \<lparr>AddEnvs = [pnpmPackageImportMethodKey \<mapsto> pnpmPackageImportMethodValue],
                      MountPaths = [pnpm_cacheDir (pnpm_version versionOutput) output],
                      RemovePaths = []\<rparr>) \<and>
         (semver_Compare (pnpm_version versionOutput) pnpmWarningFixVersion < 0 \<longrightarrow>
            (\<forall>line \<in> set (Split nl (pnpm_cacheDir (pnpm_version versionOutput) output)).
               \<not> HasPrefix line pnpmWarningPrefix)) \<and>
         (\<not> semver_Compare (pnpm_version versionOutput) pnpmWarningFixVersion < 0 \<longrightarrow>
            pnpm_cacheDir (pnpm_version versionOutput) output = TrimSpace output) \<and>
         snd (PnpmProvider_Plan req) =
           [[''pnpm'', ''--version''], [''pnpm'', ''store'', ''path'', ''--loglevel'', ''error'']] \<and>
         snd (YarnProvider_Plan yreq) =
           [[''yarn'', ''--version''],
            if HasPrefix (TrimSpace yarnVersion) yarnV1Prefix then [''yarn'', ''cache'', ''dir'']
            else [''yarn'', ''config'', ''get'', ''cacheFolder'']] \<and>
         fst (YarnProvider_Plan yreq) =
           (case Output yex (if HasPrefix (TrimSpace yarnVersion) yarnV1Prefix
                             then [''yarn'', ''cache'', ''dir'']
                             else [''yarn'', ''config'', ''get'', ''cacheFolder'']) of
              Inl err \<Rightarrow> Inl (Wrap ''yarn cache dir: '' err)
            | Inr yarnOutput \<Rightarrow>
                if TrimSpace yarnOutput = [] then Inl (New ''empty cache dir from yarn'')
                else Inr \<lparr>AddEnvs = Map.empty, MountPaths = [TrimSpace yarnOutput],
                          RemovePaths = []\<rparr>)"
proof -
  have a: "fst (PnpmProvider_Plan req) =
           (if pnpm_cacheDir (pnpm_version versionOutput) output = []
            then Inl (New ''empty cache dir from pnpm store path'')
            else Inr \<lparr>AddEnvs = [pnpmPackageImportMethodKey \<mapsto> pnpmPackageImportMethodValue],
                      MountPaths = [pnpm_cacheDir (pnpm_version versionOutput) output],
                      RemovePaths = []\<rparr>)"
    using assms(1,2,3) by (simp add: PnpmProvider_Plan_def Let_def)
  have b: "semver_Compare (pnpm_version versionOutput) pnpmWarningFixVersion < 0 \<longrightarrow>
            (\<forall>line \<in> set (Split nl (pnpm_cacheDir (pnpm_version versionOutput) output)).
               \<not> HasPrefix line pnpmWarningPrefix)"
    using pnpm_cacheDir_below by blast
  have c: "\<not> semver_Compare (pnpm_version versionOutput) pnpmWarningFixVersion < 0 \<longrightarrow>
            pnpm_cacheDir (pnpm_version versionOutput) output = TrimSpace output"
    by (simp add: pnpm_cacheDir_def)
  have d: "snd (PnpmProvider_Plan req) =
           [[''pnpm'', ''--version''], [''pnpm'', ''store'', ''path'', ''--loglevel'', ''error'']]"
    using assms(1,2,3) by (simp add: PnpmProvider_Plan_def Let_def)
  have e: "snd (YarnProvider_Plan yreq) =
           [[''yarn'', ''--version''],
            if HasPrefix (TrimSpace yarnVersion) yarnV1Prefix then [''yarn'', ''cache'', ''dir'']
            else [''yarn'', ''config'', ''get'', ''cacheFolder'']]"
    using assms(4,5) by (simp add: YarnProvider_Plan_def Let_def split: sum.splits)
  have f: "fst (YarnProvider_Plan yreq) =
           (case Output yex (if HasPrefix (TrimSpace yarnVersion) yarnV1Prefix
                             then [''yarn'', ''cache'', ''dir'']
                             else [''yarn'', ''config'', ''get'', ''cacheFolder'']) of
              Inl err \<Rightarrow> Inl (Wrap ''yarn cache dir: '' err)
            | Inr yarnOutput \<Rightarrow>
                if TrimSpace yarnOutput = [] then Inl (New ''empty cache dir from yarn'')
                else Inr \<lparr>AddEnvs = Map.empty, MountPaths = [TrimSpace yarnOutput],
                          RemovePaths = []\<rparr>)"
    using assms(4,5) by (simp add: YarnProvider_Plan_def Let_def split: sum.splits)
  from a b c d e f show ?thesis by blast
qed

lemma pnpm_version_old: "pnpm_version pnpm_9_6_0 = ''v9.6.0''"
  by code_simp

lemma pnpm_version_new: "pnpm_version pnpm_9_7_0 = ''v9.7.0''"
  by code_simp

lemma old_is_below: "semver_Compare ''v9.6.0'' pnpmWarningFixVersion < 0"
  by code_simp

lemma new_is_not_below: "\<not> semver_Compare ''v9.7.0'' pnpmWarningFixVersion < 0"
  by code_simp

lemma old_cacheDir:
  "pnpm_cacheDir ''v9.6.0'' warned_store_path = ''/home/user/.local/share/pnpm/store/v3''"
  by code_simp

lemma yarn_classic: "HasPrefix (TrimSpace yarn_1_22_19) yarnV1Prefix"
  by code_simp

lemma yarn_keeps_warning_lines:
  "TrimSpace warned_store_path =
     ''WARN'' @ [CHR 0xE2, CHR 0x80, CHR 0x89] @ '' some warning'' @ [nl] @
     ''/home/user/.local/share/pnpm/store/v3''"
  by code_simp

theorem pnpm_yarn_witness:
  "pExec \<lparr>pExec = Some (pnpm_machine pnpm_9_6_0 warned_store_path), enabledModes = []\<rparr> =
     Some (pnpm_machine pnpm_9_6_0 warned_store_path) \<and>
   semver_Compare (pnpm_version pnpm_9_6_0) pnpmWarningFixVersion < 0 \<and>
   fst (PnpmProvider_Plan
          \<lparr>pExec = Some (pnpm_machine pnpm_9_6_0 warned_store_path), enabledModes = []\<rparr>) =
     Inr \<lparr>AddEnvs = [pnpmPackageImportMethodKey \<mapsto> pnpmPackageImportMethodValue],
          MountPaths = [''/home/user/.local/share/pnpm/store/v3''], RemovePaths = []\<rparr> \<and>
   snd (YarnProvider_Plan
          \<lparr>pExec = Some (yarn_machine yarn_1_22_19 warned_store_path), enabledModes = []\<rparr>) =
     [[''yarn'', ''--version''], [''yarn'', ''cache'', ''dir'']] \<and>
   fst (YarnProvider_Plan
          \<lparr>pExec = Some (yarn_machine yarn_1_22_19 warned_store_path), enabledModes = []\<rparr>) =
     Inr \<lparr>AddEnvs = Map.empty,
          MountPaths = [''WARN'' @ [CHR 0xE2, CHR 0x80, CHR 0x89] @ '' some warning'' @ [nl] @
                        ''/home/user/.local/share/pnpm/store/v3''],
          RemovePaths = []\<rparr>"
  using pnpm_filters_below_threshold_yarn_picks_command
    [of "\<lparr>pExec = Some (pnpm_machine pnpm_9_6_0 warned_store_path), enabledModes = []\<rparr>"
        "pnpm_machine pnpm_9_6_0 warned_store_path" pnpm_9_6_0 warned_store_path
        "\<lparr>pExec = Some (yarn_machine yarn_1_22_19 warned_store_path), enabledModes = []\<rparr>"
        "yarn_machine yarn_1_22_19 warned_store_path" yarn_1_22_19]
    yarn_classic
  by (simp add: pnpm_machine_def yarn_machine_def pnpm_version_old old_is_below old_cacheDir
      yarn_keeps_warning_lines)

text \<open>
  The claim as stated fails for pnpm: a version below the threshold and one at the
  threshold are followed by the same command.
\<close>

theorem pnpm_same_command_counterexample:
  "semver_Compare (pnpm_version pnpm_9_6_0) pnpmWarningFixVersion < 0 \<and>
   \<not> semver_Compare (pnpm_version pnpm_9_7_0) pnpmWarningFixVersion < 0 \<and>
   snd (PnpmProvider_Plan
          \<lparr>pExec = Some (pnpm_machine pnpm_9_6_0 warned_store_path), enabledModes = []\<rparr>) =
     [[''pnpm'', ''--version''], [''pnpm'', ''store'', ''path'', ''--loglevel'', ''error'']] \<and>
   snd (PnpmProvider_Plan
          \<lparr>pExec = Some (pnpm_machine pnpm_9_7_0 warned_store_path), enabledModes = []\<rparr>) =
     [[''pnpm'', ''--version''], [''pnpm'', ''store'', ''path'', ''--loglevel'', ''error'']]"
  by (simp add: PnpmProvider_Plan_def pnpm_machine_def Let_def pnpm_version_old pnpm_version_new
      old_is_below new_is_not_below)

lemma scan_cache_dir_no_match:
  assumes "\<forall>raw \<in> set lines.
             \<not> HasPrefix (ToLower unicode_lower (TrimSpace (dropCR raw))) golangCILintCacheDirPrefix"
  shows "scan_cache_dir unicode_lower lines cacheDir =
           (if \<forall>raw \<in> set lines. length raw < MaxScanTokenSize then Inr cacheDir
            else Inl ErrTooLong)"
  using assms by (induction lines) (simp_all add: Let_def)

text \<open>
  Claim C9, as amended. When \<open>golangci-lint cache status\<close> succeeds and no line of its
  output matches the prefix \<open>dir:\<close>: if every line is shorter than the scanner's
  limit of 64 KiB, \<open>GolangCILintProvider.Plan\<close> succeeds and returns the default
  cache path \<open>~/.cache/golangci-lint\<close>; if some line has 64 KiB or more, it returns
  the scanner's error, wrapped. The earlier \<open>Plan\<close> that stands in mode.go has no
  default path: under the same condition it returns the error
  \<open>cache dir not found in golangci-lint output\<close> if every line is shorter than the
  limit, and the scanner's error, wrapped, otherwise.
\<close>

theorem golangci_default_when_no_line_matches:
  assumes "pExec req = Some ex"
    and "Output ex [''golangci-lint'', ''cache'', ''status''] = Inr output"
    and "\<forall>raw \<in> set (ScanLines output).
           \<not> HasPrefix (ToLower unicode_lower (TrimSpace (dropCR raw))) golangCILintCacheDirPrefix"
  shows "GolangCILintProvider_Plan unicode_lower req =
           (if \<forall>raw \<in> set (ScanLines output). length raw < MaxScanTokenSize
            then Inr \<lparr>AddEnvs = Map.empty, MountPaths = [golangCILintDefaultCacheDir],
                      RemovePaths = []\<rparr>
            else Inl (Wrap ''scanning golangci-lint output: '' ErrTooLong)) \<and>
         GolangCILintProvider_Plan_mode_go unicode_lower req =
           (if \<forall>raw \<in> set (ScanLines output). length raw < MaxScanTokenSize
            then Inl (New ''cache dir not found in golangci-lint output'')
            else Inl (Wrap ''scanning golangci-lint output: '' ErrTooLong))"
  using assms(1,2) scan_cache_dir_no_match[OF assms(3)]
  by (simp add: GolangCILintProvider_Plan_def GolangCILintProvider_Plan_mode_go_def with_Exec_def)

lemma size_only_ScanLines: "ScanLines size_only = [''Size: 123MB'']"
  by code_simp

lemma size_line_no_match:
  "\<not> HasPrefix (ToLower id (TrimSpace (dropCR ''Size: 123MB''))) golangCILintCacheDirPrefix"
  by code_simp

lemma size_only_no_match:
  "\<forall>raw \<in> set (ScanLines size_only).
     \<not> HasPrefix (ToLower id (TrimSpace (dropCR raw))) golangCILintCacheDirPrefix"
  using size_line_no_match by (simp add: size_only_ScanLines)

lemma size_only_short: "\<forall>raw \<in> set (ScanLines size_only). length raw < MaxScanTokenSize"
  by (simp add: size_only_ScanLines MaxScanTokenSize_def)

theorem golangci_default_witness:
  "pExec \<lparr>pExec = Some (golangci_machine size_only), enabledModes = []\<rparr> =
     Some (golangci_machine size_only) \<and>
   ScanLines size_only = [''Size: 123MB''] \<and>
   GolangCILintProvider_Plan id \<lparr>pExec = Some (golangci_machine size_only), enabledModes = []\<rparr> =
     Inr \<lparr>AddEnvs = Map.empty, MountPaths = [''~/.cache/golangci-lint''], RemovePaths = []\<rparr> \<and>
   GolangCILintProvider_Plan_mode_go id
       \<lparr>pExec = Some (golangci_machine size_only), enabledModes = []\<rparr> =
     Inl (New ''cache dir not found in golangci-lint output'')"
  using golangci_default_when_no_line_matches
          [of "\<lparr>pExec = Some (golangci_machine size_only), enabledModes = []\<rparr>"
              "golangci_machine size_only" size_only id, OF _ _ size_only_no_match]
        size_only_short size_only_ScanLines
  by (simp add: golangci_machine_def golangCILintDefaultCacheDir_def)

lemma TrimSpace_unchanged:
  assumes "s \<noteq> []" and "\<forall>w \<in> set space_runes. hd w \<noteq> hd s \<and> last w \<noteq> last s"
  shows "TrimSpace s = s"
proof -
  have "\<not> prefix w s" if "w \<in> set space_runes" for w
  proof
    assume "prefix w s"
    moreover have "w \<noteq> []" using that by (rule space_runes_nonempty)
    ultimately have "hd w = hd s" using assms(1) by (cases w; cases s) auto
    with that assms(2) show False by blast
  qed
  then have l: "leading_space s = None" by (auto simp: leading_space_def find_None_iff)
  have "\<not> suffix w s" if "w \<in> set space_runes" for w
  proof
    assume "suffix w s"
    moreover have "w \<noteq> []" using that by (rule space_runes_nonempty)
    ultimately have "last w = last s" by (auto simp: suffix_def)
    with that assms(2) show False by blast
  qed
  then have t: "trailing_space s = None" by (auto simp: trailing_space_def find_None_iff)
  show ?thesis using l t by (simp add: TrimSpace_def TrimLeft.simps[of s] TrimRight.simps[of s])
qed

lemma long_line_props:
  "long_line \<noteq> []" "hd long_line = CHR ''a''" "last long_line = CHR ''a''"
  "set long_line = {CHR ''a''}" "length long_line = 65536"
  by (simp_all add: long_line_def hd_replicate)

lemma long_line_trim: "TrimSpace long_line = long_line"
  by (rule TrimSpace_unchanged) (simp_all add: long_line_props space_runes_def)

lemma long_line_lower: "ToLower id long_line = long_line"
proof -
  have "map ascii_lower long_line = long_line"
    by (rule map_idI) (simp add: long_line_props ascii_lower_def)
  then show ?thesis by (simp add: ToLower_def long_line_props)
qed

lemma long_line_no_match: "\<not> HasPrefix long_line golangCILintCacheDirPrefix"
proof
  assume "HasPrefix long_line golangCILintCacheDirPrefix"
  then have "prefix ''dir:'' long_line" by (simp add: HasPrefix_def golangCILintCacheDirPrefix_def)
  then obtain zs where "long_line = ''dir:'' @ zs" by (auto simp: prefix_def)
  then have "hd long_line = hd (''dir:'' @ zs)" by (rule arg_cong)
  then have "hd long_line = CHR ''d''" by simp
  then show False by (simp add: long_line_props)
qed

lemma long_line_lines: "ScanLines long_line = [long_line]"
proof -
  have "nl \<notin> set long_line" by (simp add: long_line_props nl_def)
  then have "Split nl long_line = [long_line]" by (rule Split_no_sep)
  then show ?thesis by (simp add: ScanLines_def long_line_props)
qed


text \<open>
  The earlier \<open>Plan\<close> in mode.go has no default: without a matching line it fails.
\<close>

lemma golangci_mode_go_fails_when_no_line_matches:
  "GolangCILintProvider_Plan_mode_go id \<lparr>pExec = Some (golangci_machine size_only), enabledModes = []\<rparr> =
     Inl (New ''cache dir not found in golangci-lint output'')"
  using scan_cache_dir_no_match[OF size_only_no_match, of "[]"] size_only_short
  by (simp add: GolangCILintProvider_Plan_mode_go_def with_Exec_def golangci_machine_def)

text \<open>
  The claim as stated fails at an output whose only line has 65536 bytes: no line
  matches, and \<open>Plan\<close> returns the scanner's error. And for the \<open>Plan\<close> in mode.go
  it fails at an output that is a size line only.
\<close>

theorem golangci_long_line_counterexample:
  "ScanLines long_line = [long_line] \<and>
   \<not> HasPrefix (ToLower id (TrimSpace (dropCR long_line))) golangCILintCacheDirPrefix \<and>
   GolangCILintProvider_Plan id \<lparr>pExec = Some (golangci_machine long_line), enabledModes = []\<rparr> =
     Inl (Wrap ''scanning golangci-lint output: '' ErrTooLong) \<and>
   ScanLines size_only = [''Size: 123MB''] \<and>
   \<not> HasPrefix (ToLower id (TrimSpace (dropCR ''Size: 123MB''))) golangCILintCacheDirPrefix \<and>
   GolangCILintProvider_Plan_mode_go id \<lparr>pExec = Some (golangci_machine size_only), enabledModes = []\<rparr> =
     Inl (New ''cache dir not found in golangci-lint output'')"
proof -
  have "\<not> HasPrefix (ToLower id (TrimSpace (dropCR long_line))) golangCILintCacheDirPrefix"
    by (simp add: dropCR_def long_line_props long_line_trim long_line_lower long_line_no_match)
  moreover have "GolangCILintProvider_Plan id
      \<lparr>pExec = Some (golangci_machine long_line), enabledModes = []\<rparr> =
     Inl (Wrap ''scanning golangci-lint output: '' ErrTooLong)"
    by (simp add: long_line_lines long_line_props GolangCILintProvider_Plan_def with_Exec_def
        golangci_machine_def MaxScanTokenSize_def)
  ultimately show ?thesis
    using long_line_lines size_only_ScanLines size_line_no_match
      golangci_mode_go_fails_when_no_line_matches
    by blast
qed

section \<open>Properties of the mount orchestrator\<close>


text \<open>
  Claim C2. For the empty mount request, \<open>Mounter.Mount\<close> fails with the error
  \<open>at least one cache mode or path must be specified\<close>, and it has made no call of
  the Executor: the log of calls is empty and the file system is as it was.
\<close>

theorem empty_request_fails_without_calls:
  "Mounter_Mount m env fs0
     \<lparr>DetectAllModes = False, DetectModes = [], ManualModes = [], ManualPaths = []\<rparr> =
   (Inl (New ''at least one cache mode or path must be specified''), \<lparr>fs = fs0, calls = []\<rparr>)"
  by (simp add: Mounter_Mount_def MountRequest_EnabledModes_def)

theorem empty_request_witness:
  "fst (Mounter_Mount \<lparr>DestructiveMode = True, CacheRoot = ''/cache'', Exec = existing_paths, Modes = apt_go\<rparr>
     plain_env [] (manual_paths [])) =
     Inl (New ''at least one cache mode or path must be specified'') \<and>
   calls (snd (Mounter_Mount \<lparr>DestructiveMode = True, CacheRoot = ''/cache'', Exec = existing_paths, Modes = apt_go\<rparr>
     plain_env [] (manual_paths []))) = []"
  using empty_request_fails_without_calls
    [of "\<lparr>DestructiveMode = True, CacheRoot = ''/cache'', Exec = existing_paths, Modes = apt_go\<rparr>"
        plain_env "[]"]
  by (simp add: manual_paths_def)

lemma mountPath_resolved:
  assumes "resolveHome (UserHomeDir env) path = Inr p"
  shows "mountPath m env w modeName path =
     (case xStat (Exec m) (fs w) (filepath_Join [CacheRoot m, p]) of
        Some e \<Rightarrow>
          if \<not> errors_Is e ErrNotExist then
            (Inl (Wrap (''stat cache path '' @ Quote env (filepath_Join [CacheRoot m, p]) @ '': '') e),
             w\<lparr>calls := calls w @ [Call_Stat (filepath_Join [CacheRoot m, p]) (Some e)]\<rparr>)
          else if \<not> DestructiveMode m then
            (Inr \<lparr>Mode = modeName, CachePath = filepath_Join [CacheRoot m, p], MountPath = p, CacheHit = False\<rparr>,
             w\<lparr>calls := calls w @ [Call_Stat (filepath_Join [CacheRoot m, p]) (Some e)]\<rparr>)
          else
            (case xMount (Exec m) (fs w) (filepath_Join [CacheRoot m, p]) p of
               (Some err, fs') \<Rightarrow>
                 (Inl (Wrap (''mounting '' @ Quote env (filepath_Join [CacheRoot m, p]) @ '' to '' @ Quote env p @ '': '') err),
                  \<lparr>fs = fs', calls = calls w @ [Call_Stat (filepath_Join [CacheRoot m, p]) (Some e),
                                                    Call_Mount (filepath_Join [CacheRoot m, p]) p]\<rparr>)
             | (None, fs') \<Rightarrow>
                 (Inr \<lparr>Mode = modeName, CachePath = filepath_Join [CacheRoot m, p], MountPath = p, CacheHit = False\<rparr>,
                  \<lparr>fs = fs', calls = calls w @ [Call_Stat (filepath_Join [CacheRoot m, p]) (Some e),
                                                    Call_Mount (filepath_Join [CacheRoot m, p]) p]\<rparr>))
      | None \<Rightarrow>
          if \<not> DestructiveMode m then
            (Inr \<lparr>Mode = modeName, CachePath = filepath_Join [CacheRoot m, p], MountPath = p, CacheHit = True\<rparr>,
             w\<lparr>calls := calls w @ [Call_Stat (filepath_Join [CacheRoot m, p]) None]\<rparr>)
          else
            (case xMount (Exec m) (fs w) (filepath_Join [CacheRoot m, p]) p of
               (Some err, fs') \<Rightarrow>
                 (Inl (Wrap (''mounting '' @ Quote env (filepath_Join [CacheRoot m, p]) @ '' to '' @ Quote env p @ '': '') err),
                  \<lparr>fs = fs', calls = calls w @ [Call_Stat (filepath_Join [CacheRoot m, p]) None,
                                                    Call_Mount (filepath_Join [CacheRoot m, p]) p]\<rparr>)
             | (None, fs') \<Rightarrow>
                 (Inr \<lparr>Mode = modeName, CachePath = filepath_Join [CacheRoot m, p], MountPath = p, CacheHit = True\<rparr>,
                  \<lparr>fs = fs', calls = calls w @ [Call_Stat (filepath_Join [CacheRoot m, p]) None,
                                                    Call_Mount (filepath_Join [CacheRoot m, p]) p]\<rparr>)))"
  using assms
  by (simp add: mountPath_def do_Stat_def do_Mount_def Let_def split: option.splits prod.splits)

text \<open>
  Claim C10, as amended. For every path that starts with \<open>~\<close> but is not \<open>~\<close> and
  does not start with \<open>~/\<close>: when the home directory can be determined,
  \<open>resolveHome\<close> returns the path unchanged with no error, and \<open>mountPath\<close> joins
  that same path under the cache root; when it cannot, \<open>resolveHome\<close> returns the
  error of the lookup, wrapped.
\<close>

theorem tilde_user_is_not_expanded:
  assumes "HasPrefix path ''~''" and "path \<noteq> ''~''" and "\<not> HasPrefix path ''~/''"
  shows "resolveHome (Inr home) path = Inr path \<and>
         resolveHome (Inl err) path = Inl (Wrap ''get user home dir: '' err) \<and>
         (\<forall>r w'. UserHomeDir env = Inr home \<longrightarrow> mountPath m env w modeName path = (Inr r, w') \<longrightarrow>
            MountPath r = path \<and> CachePath r = filepath_Join [CacheRoot m, path])"
proof -
  have a: "resolveHome (Inr home) path = Inr path" using assms by (simp add: resolveHome_def)
  have b: "resolveHome (Inl err) path = Inl (Wrap ''get user home dir: '' err)"
    using assms by (simp add: resolveHome_def)
  have c: "MountPath r = path \<and> CachePath r = filepath_Join [CacheRoot m, path]"
    if "UserHomeDir env = Inr home" and "mountPath m env w modeName path = (Inr r, w')" for r w'
  proof -
    from that(1) a have "resolveHome (UserHomeDir env) path = Inr path" by simp
    from mountPath_resolved[OF this, of m w modeName] that(2) show ?thesis
      by (auto split: option.splits if_splits prod.splits)
  qed
  from a b c show ?thesis by blast
qed

theorem tilde_user_witness:
  "HasPrefix ''~user/x'' ''~'' \<and> ''~user/x'' \<noteq> ''~'' \<and> \<not> HasPrefix ''~user/x'' ''~/'' \<and>
   resolveHome (Inr ''/home/u'') ''~user/x'' = Inr ''~user/x'' \<and>
   filepath_Join [''/cache'', ''~user/x''] = ''/cache/~user/x''"
proof -
  have j: "filepath_Join [''/cache'', ''~user/x''] = ''/cache/~user/x''" by code_simp
  have h: "HasPrefix ''~user/x'' ''~''" "''~user/x'' \<noteq> ''~''" "\<not> HasPrefix ''~user/x'' ''~/''"
    by (simp_all add: HasPrefix_def)
  have "resolveHome (Inr ''/home/u'') ''~user/x'' = Inr ''~user/x''"
    by (rule tilde_user_is_not_expanded[OF h, THEN conjunct1])
  with h j show ?thesis by simp
qed

text \<open>
  The claim as stated fails where \<open>os.UserHomeDir\<close> fails: the home directory is
  looked up before the form of the path is examined.
\<close>

theorem tilde_user_without_home_counterexample:
  "HasPrefix ''~user/x'' ''~'' \<and> ''~user/x'' \<noteq> ''~'' \<and> \<not> HasPrefix ''~user/x'' ''~/'' \<and>
   resolveHome (Inl (New ''$HOME is not defined'')) ''~user/x'' =
     Inl (Wrap ''get user home dir: '' (New ''$HOME is not defined''))"
  by (simp add: resolveHome_def HasPrefix_def)















































lemma dry_fields [simp]:
  "DestructiveMode (dry m) = False" "CacheRoot (dry m) = CacheRoot m"
  "Exec (dry m) = Exec m" "Modes (dry m) = Modes m"
  by (simp_all add: dry_def)






















lemma dry_requests [simp]:
  "visited_plans (dry m) env req = visited_plans m env req"
  "requested_paths (dry m) env req = requested_paths m env req"
  "requested_entry (dry m) env = requested_entry m env"
  by (simp_all add: visited_plans_def requested_paths_def requested_entry_def fun_eq_iff)










end
